theory Spec2Isabelle
  imports Main "HOL-Library.Word" "HOL-Library.AList" "HOL-Library.Sublist"
begin

section \<open>The search index of the OpenCloud search service\<close>

text \<open>
  A shallow embedding of the two index backends of \<^verbatim>\<open>services/search\<close>: the embedded
  one (package \<^verbatim>\<open>bleve\<close>: \<^verbatim>\<open>backend.go\<close>, \<^verbatim>\<open>batch.go\<close>, \<^verbatim>\<open>index.go\<close>) and the clustered one
  (package \<^verbatim>\<open>opensearch\<close>: \<^verbatim>\<open>backend.go\<close>, \<^verbatim>\<open>batch.go\<close>, \<^verbatim>\<open>index.go\<close>). Definitions of the
  embedded backend carry the prefix \<open>bleve_\<close>, those of the clustered backend the prefix
  \<open>opensearch_\<close>; apart from that they keep the names of the Go functions they embed.
  Go methods that mutate their receiver or talk to the index take the batch and the
  engine state and return them updated, next to the \<^verbatim>\<open>error\<close> result (\<open>None\<close> is \<^verbatim>\<open>nil\<close>).
\<close>

subsection \<open>Resources and errors\<close>

text \<open>
  \<^verbatim>\<open>search.Resource\<close> with the scalar fields of the embedded \<^verbatim>\<open>content.Document\<close>. The
  optional metadata blocks (audio, image, location, photo) play no part in any function
  below and are left out.
\<close>

record Resource =
  ID :: string
  RootID :: string
  Path :: string
  ParentID :: string
  Type :: "64 word"
  Deleted :: bool
  Hidden :: bool
  Name :: string
  Title :: string
  Size :: "64 word"
  Mtime :: string
  MimeType :: string
  Content :: string
  Tags :: "string list"

text \<open>\<^verbatim>\<open>storageProvider.ResourceType_RESOURCE_TYPE_CONTAINER\<close> of the CS3 API.\<close>

definition RESOURCE_TYPE_CONTAINER :: "64 word" where
  "RESOURCE_TYPE_CONTAINER = 2"

text \<open>
  Go errors as values: \<open>ErrorString\<close> is \<^verbatim>\<open>errors.New\<close> (and \<^verbatim>\<open>fmt.Errorf\<close> without a wrapped
  error), \<open>Wrap\<close> is \<^verbatim>\<open>fmt.Errorf("...: %w", err)\<close>, \<open>EngineError\<close> is an error reported by
  the index engine, \<open>ValidationError\<close> is what the query creator reports for a malformed
  query and \<open>BadRequest\<close> is \<^verbatim>\<open>errtypes.BadRequest\<close>.
\<close>

datatype error =
    ErrorString string
  | Wrap string error
  | EngineError
  | ValidationError string
  | BadRequest string

fun Error :: "error \<Rightarrow> string" where
  "Error (ErrorString s) = s"
| "Error (Wrap s e) = s @ '': '' @ Error e"
| "Error EngineError = ''engine error''"
| "Error (ValidationError s) = s"
| "Error (BadRequest s) = s"

fun IsValidationError :: "error \<Rightarrow> bool" where
  "IsValidationError (ValidationError s) = True"
| "IsValidationError e = False"

subsection \<open>The index engine\<close>

text \<open>
  Both backends delegate storage to an engine outside the repository (the bleve library,
  an OpenSearch cluster). The engine is modelled by its state: the stored documents by
  document id, in insertion order; a schedule of faults, whose head decides the fate of
  the next request (an empty schedule means the engine stays healthy); and the log of
  the requests it has received. \<open>Unavailable\<close> makes a request fail with an error and
  without effect; \<open>Failures\<close> makes a request that reports per-document failures report
  some, without effect (other requests treat it like \<open>Unavailable\<close>).
\<close>

datatype fault = Healthy | Unavailable | Failures

datatype request =
    ReqSearch int
  | ReqBatch nat
  | ReqDocCount
  | ReqBulk nat
  | ReqDeleteByQuery
  | ReqCount

record engine =
  docs :: "(string \<times> Resource) list"
  faults :: "fault list"
  requests :: "request list"

definition receive :: "request \<Rightarrow> engine \<Rightarrow> fault \<times> engine" where
  "receive r e =
     (case faults e of
        [] \<Rightarrow> (Healthy, e\<lparr>requests := requests e @ [r]\<rparr>)
      | f # fs \<Rightarrow> (f, e\<lparr>faults := fs, requests := requests e @ [r]\<rparr>))"

subsection \<open>The embedded backend: the bleve index\<close>

text \<open>
  The queries the backend builds. \<open>RootIDQuery r\<close> is
  \<^verbatim>\<open>bleve.NewQueryStringQuery("RootID:"+r)\<close> and \<open>PathPrefixQuery p\<close> is
  \<^verbatim>\<open>bleve.NewQueryStringQuery("Path:"+escapeQuery(p+"/*"))\<close>. The query-string syntax is
  the library's; following section 4.2 of the specification (descendants are enumerated
  by a path-prefix query) the latter matches the documents whose \<open>Path\<close> is \<open>p\<close>, a
  separator, and any rest. \<open>CreatedQuery\<close> is whatever the query creator made of the
  user's query text.
\<close>

datatype query =
    DocIDQuery "string list"
  | RootIDQuery string
  | PathPrefixQuery string
  | BoolFieldQuery bool string
  | TermQuery string string
  | ConjunctionQuery "query list"
  | CreatedQuery "Resource \<Rightarrow> bool"

definition bool_field :: "string \<Rightarrow> Resource \<Rightarrow> bool option" where
  "bool_field f r =
     (if f = ''Deleted'' then Some (Deleted r)
      else if f = ''Hidden'' then Some (Hidden r)
      else None)"

definition string_field :: "string \<Rightarrow> Resource \<Rightarrow> string option" where
  "string_field f r =
     (if f = ''ID'' then Some (ID r)
      else if f = ''RootID'' then Some (RootID r)
      else if f = ''Path'' then Some (Path r)
      else if f = ''ParentID'' then Some (ParentID r)
      else if f = ''Name'' then Some (Name r)
      else if f = ''Title'' then Some (Title r)
      else if f = ''Mtime'' then Some (Mtime r)
      else if f = ''MimeType'' then Some (MimeType r)
      else if f = ''Content'' then Some (Content r)
      else None)"

fun query_matches :: "query \<Rightarrow> string \<times> Resource \<Rightarrow> bool" where
  "query_matches (DocIDQuery ids) d = (fst d \<in> set ids)"
| "query_matches (RootIDQuery r) d = (RootID (snd d) = r)"
| "query_matches (PathPrefixQuery p) d = prefix (p @ ''/'') (Path (snd d))"
| "query_matches (BoolFieldQuery v f) d = (bool_field f (snd d) = Some v)"
| "query_matches (TermQuery t f) d = (string_field f (snd d) = Some t)"
| "query_matches (ConjunctionQuery qs) d = list_all (\<lambda>q. query_matches q d) qs"
| "query_matches (CreatedQuery P) d = P (snd d)"

text \<open>
  \<^verbatim>\<open>index.Search\<close>: the hits are the first \<open>Size\<close> matching documents, the total counts all
  of them (\<^verbatim>\<open>uint64\<close>).
\<close>

definition index_Search ::
  "query \<Rightarrow> int \<Rightarrow> engine \<Rightarrow> (error + (string \<times> Resource) list \<times> 64 word) \<times> engine" where
  "index_Search q n e =
     (case receive (ReqSearch n) e of
        (Healthy, e') \<Rightarrow>
          (Inr (take (nat n) (filter (query_matches q) (docs e')),
                of_nat (length (filter (query_matches q) (docs e')))), e')
      | (f, e') \<Rightarrow> (Inl EngineError, e'))"

text \<open>
  A \<^verbatim>\<open>bleve.Batch\<close> keeps one pending operation per document id: a document to index, or
  \<open>None\<close> for a deletion. \<^verbatim>\<open>Batch.Index\<close> refuses the empty id, \<^verbatim>\<open>Batch.Delete\<close> ignores it.
\<close>

type_synonym bleve_Batch_ops = "(string \<times> Resource option) list"

definition batch_Index :: "string \<Rightarrow> Resource \<Rightarrow> bleve_Batch_ops \<Rightarrow> error + bleve_Batch_ops" where
  "batch_Index i r ops =
     (if i = [] then Inl (ErrorString ''document ID cannot be empty'')
      else Inr (AList.update i (Some r) ops))"

definition batch_Delete :: "string \<Rightarrow> bleve_Batch_ops \<Rightarrow> bleve_Batch_ops" where
  "batch_Delete i ops = (if i = [] then ops else AList.update i None ops)"

fun apply_op :: "string \<times> Resource option \<Rightarrow> (string \<times> Resource) list \<Rightarrow> (string \<times> Resource) list" where
  "apply_op (i, Some r) ds = AList.update i r ds"
| "apply_op (i, None) ds = AList.delete i ds"

definition index_Batch :: "bleve_Batch_ops \<Rightarrow> engine \<Rightarrow> error option \<times> engine" where
  "index_Batch ops e =
     (case receive (ReqBatch (length ops)) e of
        (Healthy, e') \<Rightarrow> (None, e'\<lparr>docs := fold apply_op ops (docs e')\<rparr>)
      | (f, e') \<Rightarrow> (Some EngineError, e'))"

definition index_DocCount :: "engine \<Rightarrow> (error + 64 word) \<times> engine" where
  "index_DocCount e =
     (case receive ReqDocCount e of
        (Healthy, e') \<Rightarrow> (Inr (of_nat (length (docs e'))), e')
      | (f, e') \<Rightarrow> (Inl EngineError, e'))"

subsection \<open>Library functions\<close>

text \<open>
  Of Go's standard library: \<^verbatim>\<open>strings.TrimSuffix\<close>, \<^verbatim>\<open>strings.HasPrefix\<close>, \<^verbatim>\<open>strings.Replace\<close> with
  a count of 1 (the first occurrence of \<open>old\<close>, if there is one, is replaced; an empty \<open>old\<close>
  occurs at the start), \<^verbatim>\<open>path.Base\<close> and \<^verbatim>\<open>math.MaxInt\<close> on a 64-bit platform.
\<close>

definition TrimSuffix :: "string \<Rightarrow> string \<Rightarrow> string" where
  "TrimSuffix s suf = (if suffix suf s then take (length s - length suf) s else s)"

definition HasPrefix :: "string \<Rightarrow> string \<Rightarrow> bool" where
  "HasPrefix s p = prefix p s"

fun Replace1 :: "string \<Rightarrow> string \<Rightarrow> string \<Rightarrow> string" where
  "Replace1 [] old new = (if old = [] then new else [])"
| "Replace1 (c # cs) old new =
     (if prefix old (c # cs) then new @ drop (length old) (c # cs)
      else c # Replace1 cs old new)"

definition path_Base :: "string \<Rightarrow> string" where
  "path_Base p =
     (if p = [] then ''.''
      else (let q = rev (dropWhile (\<lambda>c. c = CHR ''/'') (rev p));
                b = rev (takeWhile (\<lambda>c. c \<noteq> CHR ''/'') (rev q))
            in if b = [] then ''/'' else b))"

definition MaxInt :: int where
  "MaxInt = 2 ^ 63 - 1"

text \<open>
  Of the reva library, which is not part of the repository: \<^verbatim>\<open>utils.MakeRelativePath\<close>,
  \<^verbatim>\<open>storagespace.FormatResourceID\<close> and \<^verbatim>\<open>storagespace.ParseID\<close> (which returns a resource id
  and an error). They are parameters of the functions that call them.
\<close>

record ResourceId =
  StorageId :: string
  SpaceId :: string
  OpaqueId :: string

record reva =
  MakeRelativePath :: "string \<Rightarrow> string"
  FormatResourceID :: "ResourceId \<Rightarrow> string"
  ParseID :: "string \<Rightarrow> ResourceId \<times> error option"

subsection \<open>The embedded backend: \<^verbatim>\<open>index.go\<close>\<close>

text \<open>
  \<^verbatim>\<open>matchToResource\<close> reads a resource back from the stored fields of a hit. It reads every
  field of the record but \<^verbatim>\<open>Hidden\<close>, which is left at its zero value.
\<close>

definition matchToResource :: "string \<times> Resource \<Rightarrow> Resource" where
  "matchToResource match = (snd match)\<lparr>Hidden := False\<rparr>"

text \<open>\<^verbatim>\<open>bleve.NewSearchRequest\<close> asks for 10 hits unless the size is set.\<close>

definition bleve_searchResourceByID :: "string \<Rightarrow> engine \<Rightarrow> (error + Resource) \<times> engine" where
  "bleve_searchResourceByID i e =
     (case index_Search (DocIDQuery [i]) 10 e of
        (Inl err, e') \<Rightarrow> (Inl err, e')
      | (Inr (hits, total_hits), e') \<Rightarrow>
          (if length hits = 0 then (Inl (ErrorString ''entity not found''), e')
           else (Inr (matchToResource (hd hits)), e')))"

definition searchResourcesByPath ::
  "string \<Rightarrow> string \<Rightarrow> engine \<Rightarrow> (error + Resource list) \<times> engine" where
  "searchResourcesByPath rootId lookupPath e =
     (case index_Search (ConjunctionQuery [RootIDQuery rootId, PathPrefixQuery lookupPath]) MaxInt e of
        (Inl err, e') \<Rightarrow> (Inl err, e')
      | (Inr (hits, total_hits), e') \<Rightarrow> (Inr (map matchToResource hits), e'))"

definition searchAndUpdateResourcesLocation ::
  "reva \<Rightarrow> string \<Rightarrow> string \<Rightarrow> string \<Rightarrow> engine \<Rightarrow> (error + Resource list) \<times> engine" where
  "searchAndUpdateResourcesLocation rv rootID parentID location e =
     (case bleve_searchResourceByID rootID e of
        (Inl err, e') \<Rightarrow> (Inl err, e')
      | (Inr rootResource, e') \<Rightarrow>
          (let currentPath = Path rootResource;
               nextPath = MakeRelativePath rv location;
               rootResource' = rootResource\<lparr>Path := nextPath, Name := path_Base nextPath,
                 ParentID := parentID\<rparr>
           in if Type rootResource' = RESOURCE_TYPE_CONTAINER
              then (case searchResourcesByPath (RootID rootResource') currentPath e' of
                      (Inl err, e'') \<Rightarrow> (Inl err, e'')
                    | (Inr descendantResources, e'') \<Rightarrow>
                        (Inr (rootResource' #
                              map (\<lambda>d. d\<lparr>Path := Replace1 (Path d) currentPath nextPath\<rparr>)
                                descendantResources), e''))
              else (Inr [rootResource'], e')))"

definition searchAndUpdateResourcesDeletionState ::
  "string \<Rightarrow> bool \<Rightarrow> engine \<Rightarrow> (error + Resource list) \<times> engine" where
  "searchAndUpdateResourcesDeletionState i state e =
     (case bleve_searchResourceByID i e of
        (Inl err, e') \<Rightarrow> (Inl err, e')
      | (Inr rootResource, e') \<Rightarrow>
          (let rootResource' = rootResource\<lparr>Deleted := state\<rparr>
           in if Type rootResource' = RESOURCE_TYPE_CONTAINER
              then (case searchResourcesByPath (RootID rootResource') (Path rootResource') e' of
                      (Inl err, e'') \<Rightarrow> (Inl err, e'')
                    | (Inr descendantResources, e'') \<Rightarrow>
                        (Inr (rootResource' #
                              map (\<lambda>d. d\<lparr>Deleted := state\<rparr>) descendantResources), e''))
              else (Inr [rootResource'], e')))"

subsection \<open>The embedded backend: \<^verbatim>\<open>batch.go\<close>\<close>

text \<open>The struct \<^verbatim>\<open>Batch\<close>; its field \<^verbatim>\<open>index\<close> is the engine state that is passed along.\<close>

record bleve_Batch =
  bleve_batch :: bleve_Batch_ops
  bleve_size :: int

definition bleve_NewBatch :: "int \<Rightarrow> error + bleve_Batch" where
  "bleve_NewBatch n =
     (if n \<le> 0 then Inl (ErrorString ''batch size must be greater than 0'')
      else Inr \<lparr>bleve_batch = [], bleve_size = n\<rparr>)"

definition bleve_Push :: "bleve_Batch \<Rightarrow> engine \<Rightarrow> error option \<times> bleve_Batch \<times> engine" where
  "bleve_Push b e =
     (if length (bleve_batch b) = 0 then (None, b, e)
      else (case index_Batch (bleve_batch b) e of
              (Some err, e') \<Rightarrow> (Some err, b, e')
            | (None, e') \<Rightarrow> (None, b\<lparr>bleve_batch := []\<rparr>, e')))"

definition bleve_withSizeLimit ::
  "(bleve_Batch \<Rightarrow> engine \<Rightarrow> error option \<times> bleve_Batch \<times> engine) \<Rightarrow>
   bleve_Batch \<Rightarrow> engine \<Rightarrow> error option \<times> bleve_Batch \<times> engine" where
  "bleve_withSizeLimit f b e =
     (case f b e of
        (Some err, b', e') \<Rightarrow> (Some err, b', e')
      | (None, b', e') \<Rightarrow>
          (if bleve_size b' \<le> int (length (bleve_batch b')) then bleve_Push b' e'
           else (None, b', e')))"

definition bleve_Upsert ::
  "string \<Rightarrow> Resource \<Rightarrow> bleve_Batch \<Rightarrow> engine \<Rightarrow> error option \<times> bleve_Batch \<times> engine" where
  "bleve_Upsert i r =
     bleve_withSizeLimit (\<lambda>b e.
       (case batch_Index i r (bleve_batch b) of
          Inl err \<Rightarrow> (Some err, b, e)
        | Inr ops \<Rightarrow> (None, b\<lparr>bleve_batch := ops\<rparr>, e)))"

text \<open>
  The loop \<^verbatim>\<open>for _, resource := range resources\<close> that stages one upsert per resource and
  stops at the first error, keeping what it has staged so far.
\<close>

fun index_resources :: "Resource list \<Rightarrow> bleve_Batch_ops \<Rightarrow> error option \<times> bleve_Batch_ops" where
  "index_resources [] ops = (None, ops)"
| "index_resources (r # rs) ops =
     (case batch_Index (ID r) r ops of
        Inl err \<Rightarrow> (Some err, ops)
      | Inr ops' \<Rightarrow> index_resources rs ops')"

text \<open>
  \<^verbatim>\<open>Move\<close> as \<^verbatim>\<open>batch.go\<close> has it, with the search and the path rewrite written out in the
  method. Here and below, the closure that a method hands to \<^verbatim>\<open>withSizeLimit\<close> is the
  definition with the suffix \<open>_func\<close>.
\<close>

definition bleve_Move_func ::
  "reva \<Rightarrow> string \<Rightarrow> string \<Rightarrow> string \<Rightarrow> bleve_Batch \<Rightarrow> engine \<Rightarrow>
   error option \<times> bleve_Batch \<times> engine" where
  "bleve_Move_func rv i parentID location b e =
     (case bleve_searchResourceByID i e of
        (Inl err, e') \<Rightarrow> (Some err, b, e')
      | (Inr rootResource, e') \<Rightarrow>
          (let currentPath = Path rootResource;
               nextPath = MakeRelativePath rv location;
               rootResource' = rootResource\<lparr>Path := nextPath, Name := path_Base nextPath,
                 ParentID := parentID\<rparr>
           in if Type rootResource' = RESOURCE_TYPE_CONTAINER
              then (case searchResourcesByPath (RootID rootResource') currentPath e' of
                      (Inl err, e'') \<Rightarrow> (Some err, b, e'')
                    | (Inr descendantResources, e'') \<Rightarrow>
                        (case index_resources
                                (rootResource' #
                                 map (\<lambda>d. d\<lparr>Path := Replace1 (Path d) currentPath nextPath\<rparr>)
                                   descendantResources)
                                (bleve_batch b) of
                           (r, ops) \<Rightarrow> (r, b\<lparr>bleve_batch := ops\<rparr>, e'')))
              else (case index_resources [rootResource'] (bleve_batch b) of
                      (r, ops) \<Rightarrow> (r, b\<lparr>bleve_batch := ops\<rparr>, e'))))"

definition bleve_Move ::
  "reva \<Rightarrow> string \<Rightarrow> string \<Rightarrow> string \<Rightarrow> bleve_Batch \<Rightarrow> engine \<Rightarrow>
   error option \<times> bleve_Batch \<times> engine" where
  "bleve_Move rv i parentID location = bleve_withSizeLimit (bleve_Move_func rv i parentID location)"

definition bleve_Delete_func ::
  "string \<Rightarrow> bleve_Batch \<Rightarrow> engine \<Rightarrow> error option \<times> bleve_Batch \<times> engine" where
  "bleve_Delete_func i b e =
     (case searchAndUpdateResourcesDeletionState i True e of
        (Inl err, e') \<Rightarrow> (Some err, b, e')
      | (Inr affectedResources, e') \<Rightarrow>
          (case index_resources affectedResources (bleve_batch b) of
             (r, ops) \<Rightarrow> (r, b\<lparr>bleve_batch := ops\<rparr>, e')))"

definition bleve_Delete ::
  "string \<Rightarrow> bleve_Batch \<Rightarrow> engine \<Rightarrow> error option \<times> bleve_Batch \<times> engine" where
  "bleve_Delete i = bleve_withSizeLimit (bleve_Delete_func i)"

definition bleve_Restore_func ::
  "string \<Rightarrow> bleve_Batch \<Rightarrow> engine \<Rightarrow> error option \<times> bleve_Batch \<times> engine" where
  "bleve_Restore_func i b e =
     (case searchAndUpdateResourcesDeletionState i False e of
        (Inl err, e') \<Rightarrow> (Some err, b, e')
      | (Inr affectedResources, e') \<Rightarrow>
          (case index_resources affectedResources (bleve_batch b) of
             (r, ops) \<Rightarrow> (r, b\<lparr>bleve_batch := ops\<rparr>, e')))"

definition bleve_Restore ::
  "string \<Rightarrow> bleve_Batch \<Rightarrow> engine \<Rightarrow> error option \<times> bleve_Batch \<times> engine" where
  "bleve_Restore i = bleve_withSizeLimit (bleve_Restore_func i)"

text \<open>
  \<^verbatim>\<open>Purge\<close>: \<open>add\<close> is the closure that appends a resource to \<^verbatim>\<open>affectResources\<close> unless only
  deleted resources are wanted and the resource is not deleted.
\<close>

definition add :: "bool \<Rightarrow> Resource \<Rightarrow> Resource list \<Rightarrow> Resource list" where
  "add onlyDeleted resource affectResources =
     (if onlyDeleted \<and> \<not> Deleted resource then affectResources
      else affectResources @ [resource])"

definition bleve_Purge_func ::
  "string \<Rightarrow> bool \<Rightarrow> bleve_Batch \<Rightarrow> engine \<Rightarrow> error option \<times> bleve_Batch \<times> engine" where
  "bleve_Purge_func i onlyDeleted b e =
     (case bleve_searchResourceByID i e of
        (Inl err, e') \<Rightarrow> (Some err, b, e')
      | (Inr rootResource, e') \<Rightarrow>
          (if Type rootResource = RESOURCE_TYPE_CONTAINER
           then (case searchResourcesByPath (RootID rootResource) (Path rootResource) e' of
                   (Inl err, e'') \<Rightarrow> (Some err, b, e'')
                 | (Inr descendantResources, e'') \<Rightarrow>
                     (None,
                      b\<lparr>bleve_batch :=
                          fold (\<lambda>resource. batch_Delete (ID resource))
                            (fold (add onlyDeleted) descendantResources
                               (add onlyDeleted rootResource []))
                            (bleve_batch b)\<rparr>, e''))
           else (None,
                 b\<lparr>bleve_batch :=
                     fold (\<lambda>resource. batch_Delete (ID resource))
                       (add onlyDeleted rootResource []) (bleve_batch b)\<rparr>, e')))"

definition bleve_Purge ::
  "string \<Rightarrow> bool \<Rightarrow> bleve_Batch \<Rightarrow> engine \<Rightarrow> error option \<times> bleve_Batch \<times> engine" where
  "bleve_Purge i onlyDeleted = bleve_withSizeLimit (bleve_Purge_func i onlyDeleted)"

subsection \<open>The embedded backend: the mutations of \<^verbatim>\<open>backend.go\<close>\<close>

definition defaultBatchSize :: int where
  "defaultBatchSize = 50"

text \<open>
  Every mutation of \<^verbatim>\<open>Backend\<close> opens a batch, applies one call to it and pushes;
  \<open>bleve_Backend_apply\<close> is that common body, with the call as its argument.
\<close>

definition bleve_Backend_apply ::
  "(bleve_Batch \<Rightarrow> engine \<Rightarrow> error option \<times> bleve_Batch \<times> engine) \<Rightarrow> engine \<Rightarrow>
   error option \<times> engine" where
  "bleve_Backend_apply call e =
     (case bleve_NewBatch defaultBatchSize of
        Inl err \<Rightarrow> (Some err, e)
      | Inr batch \<Rightarrow>
          (case call batch e of
             (Some err, batch', e') \<Rightarrow> (Some err, e')
           | (None, batch', e') \<Rightarrow>
               (case bleve_Push batch' e' of (r, batch'', e'') \<Rightarrow> (r, e''))))"

definition bleve_Backend_Upsert :: "string \<Rightarrow> Resource \<Rightarrow> engine \<Rightarrow> error option \<times> engine" where
  "bleve_Backend_Upsert i r = bleve_Backend_apply (bleve_Upsert i r)"

definition bleve_Backend_Move ::
  "reva \<Rightarrow> string \<Rightarrow> string \<Rightarrow> string \<Rightarrow> engine \<Rightarrow> error option \<times> engine" where
  "bleve_Backend_Move rv rootID parentID location =
     bleve_Backend_apply (bleve_Move rv rootID parentID location)"

definition bleve_Backend_Delete :: "string \<Rightarrow> engine \<Rightarrow> error option \<times> engine" where
  "bleve_Backend_Delete i = bleve_Backend_apply (bleve_Delete i)"

definition bleve_Backend_Restore :: "string \<Rightarrow> engine \<Rightarrow> error option \<times> engine" where
  "bleve_Backend_Restore i = bleve_Backend_apply (bleve_Restore i)"

definition bleve_Backend_Purge :: "string \<Rightarrow> bool \<Rightarrow> engine \<Rightarrow> error option \<times> engine" where
  "bleve_Backend_Purge i onlyDeleted = bleve_Backend_apply (bleve_Purge i onlyDeleted)"

subsection \<open>Search requests and responses\<close>

text \<open>
  \<^verbatim>\<open>searchService.SearchIndexRequest\<close> with its reference (\<open>None\<close> is \<^verbatim>\<open>nil\<close>) and its page size,
  an \<^verbatim>\<open>int32\<close>; \<^verbatim>\<open>searchMessage.Match\<close> with the entity's reference, ids and scalar fields
  (score, highlights, modification time and the metadata blocks are left out); and
  \<^verbatim>\<open>searchService.SearchIndexResponse\<close>.
\<close>

record Reference =
  Ref_ResourceId :: ResourceId
  Ref_Path :: string

record SearchIndexRequest =
  Query :: string
  Ref :: "Reference option"
  PageSize :: "32 word"

record Match =
  Entity_Ref_ResourceId :: ResourceId
  Entity_Ref_Path :: string
  Entity_Id :: ResourceId
  Entity_Name :: string
  Entity_ParentId :: ResourceId
  Entity_Size :: "64 word"
  Entity_Type :: "64 word"
  Entity_MimeType :: string
  Entity_Deleted :: bool
  Entity_Tags :: "string list"

record SearchIndexResponse =
  Matches :: "Match list"
  TotalMatches :: "32 word"

subsection \<open>The embedded backend: \<^verbatim>\<open>Search\<close> and \<^verbatim>\<open>DocCount\<close> of \<^verbatim>\<open>backend.go\<close>\<close>

text \<open>
  The parts of \<^verbatim>\<open>Search\<close> in the order of the method. \<open>bleve_Search_query\<close> is the conjunction
  it builds from the created query: the clause that skips deleted documents, the created
  query and, with a reference, the term query on \<open>RootID\<close>. \<open>bleve_Search_Size\<close> is the switch
  on the page size.
\<close>

definition bleve_Search_query :: "reva \<Rightarrow> query \<Rightarrow> Reference option \<Rightarrow> query" where
  "bleve_Search_query rv createdQuery ref =
     (case ref of
        None \<Rightarrow> ConjunctionQuery [BoolFieldQuery False ''Deleted'', createdQuery]
      | Some r \<Rightarrow>
          ConjunctionQuery
            ([BoolFieldQuery False ''Deleted'', createdQuery] @
             [TermQuery
                (FormatResourceID rv
                   \<lparr>StorageId = StorageId (Ref_ResourceId r), SpaceId = SpaceId (Ref_ResourceId r),
                    OpaqueId = OpaqueId (Ref_ResourceId r)\<rparr>)
                ''RootID'']))"

definition bleve_Search_Size :: "32 word \<Rightarrow> int" where
  "bleve_Search_Size pageSize =
     (if pageSize = - 1 then MaxInt
      else if pageSize = 0 then 200
      else sint pageSize)"

text \<open>
  The body of the loop over the hits after the scope test: the three ids are parsed (an
  error of the first two ends the search, one of the third is ignored) and the match is
  built from the stored fields.
\<close>

definition bleve_hitToMatch :: "reva \<Rightarrow> string \<times> Resource \<Rightarrow> error + Match" where
  "bleve_hitToMatch rv hit =
     (case ParseID rv (RootID (snd hit)) of
        (rootID, Some err) \<Rightarrow> Inl err
      | (rootID, None) \<Rightarrow>
          (case ParseID rv (ID (snd hit)) of
             (rID, Some err) \<Rightarrow> Inl err
           | (rID, None) \<Rightarrow>
               (case ParseID rv (ParentID (snd hit)) of
                  (pID, ignored) \<Rightarrow>
                    Inr \<lparr>Entity_Ref_ResourceId = rootID, Entity_Ref_Path = Path (snd hit),
                         Entity_Id = rID, Entity_Name = Name (snd hit), Entity_ParentId = pID,
                         Entity_Size = Size (snd hit), Entity_Type = Type (snd hit),
                         Entity_MimeType = MimeType (snd hit), Entity_Deleted = Deleted (snd hit),
                         Entity_Tags = Tags (snd hit)\<rparr>)))"

text \<open>
  The loop over the hits, with \<^verbatim>\<open>matches\<close> and \<^verbatim>\<open>totalMatches\<close> (a \<^verbatim>\<open>uint64\<close>) as accumulators.
\<close>

fun bleve_Search_loop ::
  "reva \<Rightarrow> Reference option \<Rightarrow> (string \<times> Resource) list \<Rightarrow> Match list \<Rightarrow> 64 word \<Rightarrow>
   error + Match list \<times> 64 word" where
  "bleve_Search_loop rv ref [] matches totalMatches = Inr (matches, totalMatches)"
| "bleve_Search_loop rv ref (hit # hits) matches totalMatches =
     (if (case ref of
            None \<Rightarrow> False
          | Some r \<Rightarrow>
              (let hitPath = TrimSuffix (Path (snd hit)) ''/'';
                   requestedPath = MakeRelativePath rv (Ref_Path r);
                   isRoot = (hitPath = requestedPath)
               in \<not> isRoot \<and> requestedPath \<noteq> ''.'' \<and> \<not> HasPrefix hitPath (requestedPath @ ''/'')))
      then bleve_Search_loop rv ref hits matches (totalMatches - 1)
      else (case bleve_hitToMatch rv hit of
              Inl err \<Rightarrow> Inl err
            | Inr match \<Rightarrow> bleve_Search_loop rv ref hits (matches @ [match]) totalMatches))"

text \<open>
  \<^verbatim>\<open>Search\<close>; \<open>queryCreator\<close> is the field of the backend that translates the query text.
\<close>

definition bleve_Search ::
  "reva \<Rightarrow> (string \<Rightarrow> error + query) \<Rightarrow> SearchIndexRequest \<Rightarrow> engine \<Rightarrow>
   (error + SearchIndexResponse) \<times> engine" where
  "bleve_Search rv queryCreator sir e =
     (case queryCreator (Query sir) of
        Inl err \<Rightarrow> (if IsValidationError err then (Inl (BadRequest (Error err)), e) else (Inl err, e))
      | Inr createdQuery \<Rightarrow>
          (case index_Search (bleve_Search_query rv createdQuery (Ref sir))
                  (bleve_Search_Size (PageSize sir)) e of
             (Inl err, e') \<Rightarrow> (Inl err, e')
           | (Inr (hits, total_hits), e') \<Rightarrow>
               (case bleve_Search_loop rv (Ref sir) hits [] total_hits of
                  Inl err \<Rightarrow> (Inl err, e')
                | Inr (matches, totalMatches) \<Rightarrow>
                    (Inr \<lparr>Matches = matches, TotalMatches = ucast totalMatches\<rparr>, e'))))"

definition bleve_DocCount :: "engine \<Rightarrow> (error + 64 word) \<times> engine" where
  "bleve_DocCount e = index_DocCount e"

subsection \<open>The clustered backend: the OpenSearch client\<close>

text \<open>
  Modelled from the spec: the query builders of package \<^verbatim>\<open>osu\<close> are not among the sources.
  Section 6 of the specification describes the translated query as a conjunctive boolean
  query with a mandatory \<open>Deleted = false\<close> clause and an optional \<open>RootID\<close> equality clause;
  \<open>BoolQuery must filter must_not should\<close> is that boolean query, \<open>Must\<close> and \<open>Filter\<close> add a
  clause to it as the builder methods of these names do, \<open>QueryOfBool\<close> is a boolean query
  in the place of a query, and \<open>KQLQuery\<close> stands for a clause that the translation of the
  user's query text produced.
\<close>

datatype opensearch_query =
    IDsQuery "string list"
  | TermQuery_string string string
  | TermQuery_bool string bool
  | KQLQuery "Resource \<Rightarrow> bool"
  | QueryOfBool BoolQuery
and BoolQuery =
    BoolQuery "opensearch_query list" "opensearch_query list" "opensearch_query list"
      "opensearch_query list"

definition NewBoolQuery :: BoolQuery where
  "NewBoolQuery = BoolQuery [] [] [] []"

fun Must :: "opensearch_query \<Rightarrow> BoolQuery \<Rightarrow> BoolQuery" where
  "Must q (BoolQuery m f n s) = BoolQuery (m @ [q]) f n s"

fun Filter :: "opensearch_query \<Rightarrow> BoolQuery \<Rightarrow> BoolQuery" where
  "Filter q (BoolQuery m f n s) = BoolQuery m (f @ [q]) n s"

text \<open>
  Which documents a term query on \<open>Path\<close> selects is decided by the index mapping, which is
  not among the sources: it is the parameter \<open>pm\<close> (query value, then stored path) of
  everything that evaluates queries. The other fields are compared for equality. A
  boolean query selects a document that satisfies every \<open>must\<close> and every \<open>filter\<close> clause and
  no \<open>must_not\<close> clause, and one of the \<open>should\<close> clauses when there are no others.
\<close>

fun opensearch_matches ::
  "(string \<Rightarrow> string \<Rightarrow> bool) \<Rightarrow> opensearch_query \<Rightarrow> string \<times> Resource \<Rightarrow> bool"
and BoolQuery_matches ::
  "(string \<Rightarrow> string \<Rightarrow> bool) \<Rightarrow> BoolQuery \<Rightarrow> string \<times> Resource \<Rightarrow> bool" where
  "opensearch_matches pm (IDsQuery ids) d = (fst d \<in> set ids)"
| "opensearch_matches pm (TermQuery_string f v) d =
     (if f = ''Path'' then pm v (Path (snd d)) else string_field f (snd d) = Some v)"
| "opensearch_matches pm (TermQuery_bool f v) d = (bool_field f (snd d) = Some v)"
| "opensearch_matches pm (KQLQuery P) d = P (snd d)"
| "opensearch_matches pm (QueryOfBool b) d = BoolQuery_matches pm b d"
| "BoolQuery_matches pm (BoolQuery m f n s) d =
     (list_all (\<lambda>q. opensearch_matches pm q d) m \<and>
      list_all (\<lambda>q. opensearch_matches pm q d) f \<and>
      \<not> list_ex (\<lambda>q. opensearch_matches pm q d) n \<and>
      (if m = [] \<and> f = [] \<and> s \<noteq> [] then list_ex (\<lambda>q. opensearch_matches pm q d) s else True))"

text \<open>
  Modelled from the spec: section 4.2 says that the clustered backend matches by path
  prefix. This is the matching used in the concrete runs below: a term query on \<open>Path\<close>
  selects the resource at that path and everything beneath it.
\<close>

definition path_hierarchy :: "string \<Rightarrow> string \<Rightarrow> bool" where
  "path_hierarchy v p = (if p = v then True else prefix (v @ ''/'') p)"

text \<open>
  \<^verbatim>\<open>client.Search\<close> (a request without a size gets the engine's default of 10 hits),
  \<^verbatim>\<open>client.Document.DeleteByQuery\<close> (the result is the number of reported failures) and
  \<^verbatim>\<open>client.Indices.Count\<close>.
\<close>

definition client_Search ::
  "(string \<Rightarrow> string \<Rightarrow> bool) \<Rightarrow> opensearch_query \<Rightarrow> int option \<Rightarrow> engine \<Rightarrow>
   (error + (string \<times> Resource) list \<times> int) \<times> engine" where
  "client_Search pm q n e =
     (case receive (ReqSearch (case n of None \<Rightarrow> 10 | Some k \<Rightarrow> k)) e of
        (Healthy, e') \<Rightarrow>
          (Inr (take (nat (case n of None \<Rightarrow> 10 | Some k \<Rightarrow> k))
                  (filter (opensearch_matches pm q) (docs e')),
                int (length (filter (opensearch_matches pm q) (docs e')))), e')
      | (f, e') \<Rightarrow> (Inl EngineError, e'))"

definition client_DeleteByQuery ::
  "(string \<Rightarrow> string \<Rightarrow> bool) \<Rightarrow> opensearch_query \<Rightarrow> engine \<Rightarrow> (error + nat) \<times> engine" where
  "client_DeleteByQuery pm q e =
     (case receive ReqDeleteByQuery e of
        (Healthy, e') \<Rightarrow>
          (Inr 0, e'\<lparr>docs := filter (\<lambda>d. \<not> opensearch_matches pm q d) (docs e')\<rparr>)
      | (Failures, e') \<Rightarrow> (Inr 1, e')
      | (Unavailable, e') \<Rightarrow> (Inl EngineError, e'))"

definition client_Count ::
  "(string \<Rightarrow> string \<Rightarrow> bool) \<Rightarrow> opensearch_query \<Rightarrow> engine \<Rightarrow> (error + int) \<times> engine" where
  "client_Count pm q e =
     (case receive ReqCount e of
        (Healthy, e') \<Rightarrow> (Inr (int (length (filter (opensearch_matches pm q) (docs e')))), e')
      | (f, e') \<Rightarrow> (Inl EngineError, e'))"

subsection \<open>The clustered backend: \<^verbatim>\<open>index.go\<close>\<close>

definition opensearch_searchResourceByID ::
  "(string \<Rightarrow> string \<Rightarrow> bool) \<Rightarrow> string \<Rightarrow> engine \<Rightarrow> (error + Resource) \<times> engine" where
  "opensearch_searchResourceByID pm i e =
     (case client_Search pm (IDsQuery [i]) None e of
        (Inl err, e') \<Rightarrow> (Inl (Wrap ''failed to search for resource'' err), e')
      | (Inr (hits, total_value), e') \<Rightarrow>
          (if total_value = 0 \<or> length hits = 0
           then (Inl (ErrorString (''document with id '' @ i @ '' not found'')), e')
           else (Inr (snd (hd hits)), e')))"

subsection \<open>The clustered backend: \<^verbatim>\<open>batch.go\<close>\<close>

text \<open>
  A staged operation is one of two kinds of closure: \<^verbatim>\<open>func() []map[string]any\<close>, which
  yields lines for the bulk API (\<open>FuncBulk\<close>, with the lines it yields), or
  \<^verbatim>\<open>func() error\<close>, which talks to the cluster itself (\<open>FuncError\<close>). An upsert yields two
  lines: the action with index name and document id, and the document.
\<close>

datatype bulk_line = ActionIndex string string | Source Resource

datatype operation =
    FuncBulk "bulk_line list"
  | FuncError "engine \<Rightarrow> error option \<times> engine"

record opensearch_Batch =
  opensearch_index :: string
  opensearch_size :: int
  operations :: "operation list"

definition opensearch_NewBatch :: "string \<Rightarrow> int \<Rightarrow> error + opensearch_Batch" where
  "opensearch_NewBatch ix n =
     (if n \<le> 0 then Inl (ErrorString ''batch size must be greater than 0'')
      else Inr \<lparr>opensearch_index = ix, opensearch_size = n, operations = []\<rparr>)"

text \<open>
  \<^verbatim>\<open>client.Bulk\<close>: the lines are read in pairs of action and document. The caller discards
  the response, so rejected documents (\<open>Failures\<close>) go unreported.
\<close>

fun bulk_apply :: "bulk_line list \<Rightarrow> (string \<times> Resource) list \<Rightarrow> (string \<times> Resource) list" where
  "bulk_apply (ActionIndex ix i # Source r # ls) ds = bulk_apply ls (AList.update i r ds)"
| "bulk_apply ls ds = ds"

definition client_Bulk :: "bulk_line list \<Rightarrow> engine \<Rightarrow> error option \<times> engine" where
  "client_Bulk ls e =
     (case receive (ReqBulk (length ls)) e of
        (Healthy, e') \<Rightarrow> (None, e'\<lparr>docs := bulk_apply ls (docs e')\<rparr>)
      | (Failures, e') \<Rightarrow> (None, e')
      | (Unavailable, e') \<Rightarrow> (Some EngineError, e'))"

text \<open>
  The closure \<^verbatim>\<open>pushBulkOperations\<close> of \<^verbatim>\<open>Push\<close>; it returns the variable \<^verbatim>\<open>bulkOperations\<close>
  it closes over next to its result.
\<close>

definition pushBulkOperations ::
  "bulk_line list \<Rightarrow> engine \<Rightarrow> error option \<times> bulk_line list \<times> engine" where
  "pushBulkOperations bulkOperations e =
     (if length bulkOperations = 0 then (None, bulkOperations, e)
      else (case client_Bulk bulkOperations e of
              (Some err, e') \<Rightarrow>
                (Some (Wrap ''failed to execute bulk operations'' err), bulkOperations, e')
            | (None, e') \<Rightarrow> (None, [], e')))"

text \<open>The loop of \<^verbatim>\<open>Push\<close> over \<^verbatim>\<open>b.operations\<close>, ending with the final \<^verbatim>\<open>pushBulkOperations\<close>.\<close>

fun opensearch_Push_loop ::
  "operation list \<Rightarrow> bulk_line list \<Rightarrow> engine \<Rightarrow> error option \<times> engine" where
  "opensearch_Push_loop [] bulkOperations e =
     (case pushBulkOperations bulkOperations e of (r, bulkOperations', e') \<Rightarrow> (r, e'))"
| "opensearch_Push_loop (FuncBulk ls # ops) bulkOperations e =
     opensearch_Push_loop ops (bulkOperations @ ls) e"
| "opensearch_Push_loop (FuncError op # ops) bulkOperations e =
     (case pushBulkOperations bulkOperations e of
        (Some err, bulkOperations', e') \<Rightarrow> (Some (Wrap ''failed to push operations'' err), e')
      | (None, bulkOperations', e') \<Rightarrow>
          (case op e' of
             (Some err, e'') \<Rightarrow> (Some (Wrap ''failed to execute operation'' err), e'')
           | (None, e'') \<Rightarrow> opensearch_Push_loop ops bulkOperations' e''))"

text \<open>\<^verbatim>\<open>Push\<close>: the deferred cleanup empties \<^verbatim>\<open>b.operations\<close> on every return.\<close>

definition opensearch_Push ::
  "opensearch_Batch \<Rightarrow> engine \<Rightarrow> error option \<times> opensearch_Batch \<times> engine" where
  "opensearch_Push b e =
     (case opensearch_Push_loop (operations b) [] e of
        (r, e') \<Rightarrow> (r, b\<lparr>operations := []\<rparr>, e'))"

definition opensearch_withSizeLimit ::
  "(opensearch_Batch \<Rightarrow> engine \<Rightarrow> error option \<times> opensearch_Batch \<times> engine) \<Rightarrow>
   opensearch_Batch \<Rightarrow> engine \<Rightarrow> error option \<times> opensearch_Batch \<times> engine" where
  "opensearch_withSizeLimit f b e =
     (case f b e of
        (Some err, b', e') \<Rightarrow> (Some err, b', e')
      | (None, b', e') \<Rightarrow>
          (if opensearch_size b' \<le> int (length (operations b')) then opensearch_Push b' e'
           else (None, b', e')))"

definition opensearch_Upsert ::
  "string \<Rightarrow> Resource \<Rightarrow> opensearch_Batch \<Rightarrow> engine \<Rightarrow>
   error option \<times> opensearch_Batch \<times> engine" where
  "opensearch_Upsert i r =
     opensearch_withSizeLimit (\<lambda>b e.
       (None, b\<lparr>operations := operations b @ [FuncBulk [ActionIndex (opensearch_index b) i, Source r]]\<rparr>, e))"

text \<open>
  \<^verbatim>\<open>Purge\<close> looks the resource up and builds the query when it is called; the closure it
  stages (\<open>opensearch_Purge_op\<close>) runs the delete-by-query when the batch is pushed.
\<close>

definition opensearch_Purge_op ::
  "(string \<Rightarrow> string \<Rightarrow> bool) \<Rightarrow> opensearch_query \<Rightarrow> engine \<Rightarrow> error option \<times> engine" where
  "opensearch_Purge_op pm q e =
     (case client_DeleteByQuery pm q e of
        (Inl err, e') \<Rightarrow> (Some (Wrap ''failed to delete by query'' err), e')
      | (Inr failures, e') \<Rightarrow>
          (if failures \<noteq> 0 then (Some (ErrorString ''failed to delete by query, failures''), e')
           else (None, e')))"

definition opensearch_Purge_func ::
  "(string \<Rightarrow> string \<Rightarrow> bool) \<Rightarrow> string \<Rightarrow> bool \<Rightarrow> opensearch_Batch \<Rightarrow> engine \<Rightarrow>
   error option \<times> opensearch_Batch \<times> engine" where
  "opensearch_Purge_func pm i onlyDeleted b e =
     (case opensearch_searchResourceByID pm i e of
        (Inl err, e') \<Rightarrow> (Some (Wrap ''failed to get resource'' err), b, e')
      | (Inr resource, e') \<Rightarrow>
          (let q0 = Must (TermQuery_string ''Path'' (Path resource)) NewBoolQuery;
               q = (if onlyDeleted then Must (TermQuery_bool ''Deleted'' True) q0 else q0)
           in (None,
               b\<lparr>operations := operations b @ [FuncError (opensearch_Purge_op pm (QueryOfBool q))]\<rparr>,
               e')))"

definition opensearch_Purge ::
  "(string \<Rightarrow> string \<Rightarrow> bool) \<Rightarrow> string \<Rightarrow> bool \<Rightarrow> opensearch_Batch \<Rightarrow> engine \<Rightarrow>
   error option \<times> opensearch_Batch \<times> engine" where
  "opensearch_Purge pm i onlyDeleted = opensearch_withSizeLimit (opensearch_Purge_func pm i onlyDeleted)"

subsection \<open>The clustered backend: the mutations of \<^verbatim>\<open>backend.go\<close>\<close>

text \<open>
  As on the embedded backend, every mutation of \<^verbatim>\<open>Backend\<close> opens a batch on the backend's
  index, applies one call and pushes.
\<close>

definition opensearch_Backend_apply ::
  "string \<Rightarrow> (opensearch_Batch \<Rightarrow> engine \<Rightarrow> error option \<times> opensearch_Batch \<times> engine) \<Rightarrow>
   engine \<Rightarrow> error option \<times> engine" where
  "opensearch_Backend_apply ix call e =
     (case opensearch_NewBatch ix defaultBatchSize of
        Inl err \<Rightarrow> (Some err, e)
      | Inr batch \<Rightarrow>
          (case call batch e of
             (Some err, batch', e') \<Rightarrow> (Some err, e')
           | (None, batch', e') \<Rightarrow>
               (case opensearch_Push batch' e' of (r, batch'', e'') \<Rightarrow> (r, e''))))"

definition opensearch_Backend_Upsert ::
  "string \<Rightarrow> string \<Rightarrow> Resource \<Rightarrow> engine \<Rightarrow> error option \<times> engine" where
  "opensearch_Backend_Upsert ix i r = opensearch_Backend_apply ix (opensearch_Upsert i r)"

definition opensearch_Backend_Purge ::
  "(string \<Rightarrow> string \<Rightarrow> bool) \<Rightarrow> string \<Rightarrow> string \<Rightarrow> bool \<Rightarrow> engine \<Rightarrow>
   error option \<times> engine" where
  "opensearch_Backend_Purge pm ix i onlyDeleted =
     opensearch_Backend_apply ix (opensearch_Purge pm i onlyDeleted)"

subsection \<open>The clustered backend: \<^verbatim>\<open>Search\<close> and \<^verbatim>\<open>DocCount\<close> of \<^verbatim>\<open>backend.go\<close>\<close>

text \<open>
  \<open>opensearch_Search_query\<close> adds the filter clauses to the translated boolean query and
  \<open>opensearch_Search_Size\<close> is the switch on the page size.
\<close>

definition opensearch_Search_query :: "reva \<Rightarrow> BoolQuery \<Rightarrow> Reference option \<Rightarrow> BoolQuery" where
  "opensearch_Search_query rv boolQuery ref =
     (case ref of
        None \<Rightarrow> Filter (TermQuery_bool ''Deleted'' False) boolQuery
      | Some r \<Rightarrow>
          Filter
            (TermQuery_string ''RootID''
               (FormatResourceID rv
                  \<lparr>StorageId = StorageId (Ref_ResourceId r), SpaceId = SpaceId (Ref_ResourceId r),
                   OpaqueId = OpaqueId (Ref_ResourceId r)\<rparr>))
            (Filter (TermQuery_bool ''Deleted'' False) boolQuery))"

definition opensearch_Search_Size :: "32 word \<Rightarrow> int" where
  "opensearch_Search_Size pageSize =
     (if pageSize = - 1 then 1000
      else if pageSize = 0 then 200
      else sint pageSize)"

text \<open>
  The loop over the hits, with \<^verbatim>\<open>matches\<close> and \<^verbatim>\<open>totalMatches\<close> (an \<^verbatim>\<open>int\<close>) as accumulators.
  \<^verbatim>\<open>convert.OpenSearchHitToMatch\<close> is not among the sources: it is the parameter
  \<open>hitToMatch\<close>.
\<close>

fun opensearch_Search_loop ::
  "reva \<Rightarrow> (string \<times> Resource \<Rightarrow> error + Match) \<Rightarrow> Reference option \<Rightarrow>
   (string \<times> Resource) list \<Rightarrow> Match list \<Rightarrow> int \<Rightarrow> error + Match list \<times> int" where
  "opensearch_Search_loop rv hitToMatch ref [] matches totalMatches = Inr (matches, totalMatches)"
| "opensearch_Search_loop rv hitToMatch ref (hit # hits) matches totalMatches =
     (case hitToMatch hit of
        Inl err \<Rightarrow> Inl (Wrap ''failed to convert hit to match'' err)
      | Inr match \<Rightarrow>
          (if (case ref of
                 None \<Rightarrow> False
               | Some r \<Rightarrow>
                   (let hitPath = TrimSuffix (Entity_Ref_Path match) ''/'';
                        requestedPath = MakeRelativePath rv (Ref_Path r);
                        isRoot = (hitPath = requestedPath)
                    in \<not> isRoot \<and> requestedPath \<noteq> ''.'' \<and>
                       \<not> HasPrefix hitPath (requestedPath @ ''/'')))
           then opensearch_Search_loop rv hitToMatch ref hits matches (totalMatches - 1)
           else opensearch_Search_loop rv hitToMatch ref hits (matches @ [match]) totalMatches))"

text \<open>
  \<^verbatim>\<open>Search\<close>; \<^verbatim>\<open>convert.KQLToOpenSearchBoolQuery\<close> is not among the sources either: it is the
  parameter \<open>kql\<close>. The total is converted to \<^verbatim>\<open>int32\<close>.
\<close>

definition opensearch_Search ::
  "(string \<Rightarrow> string \<Rightarrow> bool) \<Rightarrow> reva \<Rightarrow> (string \<Rightarrow> error + BoolQuery) \<Rightarrow>
   (string \<times> Resource \<Rightarrow> error + Match) \<Rightarrow> SearchIndexRequest \<Rightarrow> engine \<Rightarrow>
   (error + SearchIndexResponse) \<times> engine" where
  "opensearch_Search pm rv kql hitToMatch sir e =
     (case kql (Query sir) of
        Inl err \<Rightarrow>
          (Inl (Wrap ''failed to convert KQL query to OpenSearch bool query'' err), e)
      | Inr boolQuery \<Rightarrow>
          (case client_Search pm (QueryOfBool (opensearch_Search_query rv boolQuery (Ref sir)))
                  (Some (opensearch_Search_Size (PageSize sir))) e of
             (Inl err, e') \<Rightarrow> (Inl (Wrap ''failed to search'' err), e')
           | (Inr (hits, total_value), e') \<Rightarrow>
               (case opensearch_Search_loop rv hitToMatch (Ref sir) hits [] total_value of
                  Inl err \<Rightarrow> (Inl err, e')
                | Inr (matches, totalMatches) \<Rightarrow>
                    (Inr \<lparr>Matches = matches, TotalMatches = word_of_int totalMatches\<rparr>, e'))))"

definition opensearch_DocCount ::
  "(string \<Rightarrow> string \<Rightarrow> bool) \<Rightarrow> engine \<Rightarrow> (error + 64 word) \<times> engine" where
  "opensearch_DocCount pm e =
     (case client_Count pm (TermQuery_bool ''Deleted'' False) e of
        (Inl err, e') \<Rightarrow> (Inl (Wrap ''failed to count documents'' err), e')
      | (Inr n, e') \<Rightarrow> (Inr (word_of_int n), e'))"

subsection \<open>Well-formed indexes and descendants\<close>

text \<open>
  The vocabulary of the properties below. An index is well formed when every document is
  stored once, under a non-empty document id that is the \<open>ID\<close> of the resource (callers
  upsert a resource under its own id). A resource \<open>d\<close> is a descendant of \<open>c\<close> when it lies
  in the space of \<open>c\<close> and its path is the path of \<open>c\<close>, a separator, and any rest.
\<close>

definition wf_docs :: "(string \<times> Resource) list \<Rightarrow> bool" where
  "wf_docs ds =
     (distinct (map fst ds) \<and> list_all (\<lambda>d. fst d \<noteq> [] \<and> ID (snd d) = fst d) ds)"

definition descendant :: "Resource \<Rightarrow> Resource \<Rightarrow> bool" where
  "descendant c d = (RootID d = RootID c \<and> prefix (Path c @ ''/'') (Path d))"

text \<open>
  The scope test in the words of the specification: a path lies in the scope when,
  trimmed of a trailing slash, it is the scope's relative path, or that relative path is
  the dot, or it starts with the relative path and a separator.
\<close>

definition in_scope :: "string \<Rightarrow> string \<Rightarrow> bool" where
  "in_scope requestedPath p =
     (TrimSuffix p ''/'' = requestedPath \<or> requestedPath = ''.'' \<or>
      prefix (requestedPath @ ''/'') (TrimSuffix p ''/''))"

subsection \<open>Concrete inputs\<close>

text \<open>
  A resource with the given id, space, path, type and deletion flag, named after the last
  element of its path and with an otherwise empty document; and an engine that holds the
  given documents, stays healthy and has received no request yet.
\<close>

definition resource :: "string \<Rightarrow> string \<Rightarrow> string \<Rightarrow> 64 word \<Rightarrow> bool \<Rightarrow> Resource" where
  "resource i root p t d =
     \<lparr>ID = i, RootID = root, Path = p, ParentID = root, Type = t, Deleted = d, Hidden = False,
      Name = rev (takeWhile (\<lambda>c. c \<noteq> CHR ''/'') (rev p)), Title = [], Size = 0, Mtime = [],
      MimeType = [], Content = [], Tags = []\<rparr>"

definition healthy_engine :: "(string \<times> Resource) list \<Rightarrow> engine" where
  "healthy_engine ds = \<lparr>docs = ds, faults = [], requests = []\<rparr>"

text \<open>
  An index with two spaces: in space \<open>s1\<close> the folder \<open>./a\<close>, the deleted file \<open>./a/x.txt\<close> in
  it and the file \<open>./ab/y.txt\<close> beside it; in space \<open>s2\<close> the deleted file \<open>./a/z.txt\<close>.
\<close>

definition example_docs :: "(string \<times> Resource) list" where
  "example_docs =
     [(''d1'', resource ''d1'' ''s1'' ''./a'' 2 False),
      (''f1'', resource ''f1'' ''s1'' ''./a/x.txt'' 1 True),
      (''f2'', resource ''f2'' ''s1'' ''./ab/y.txt'' 1 False),
      (''f3'', resource ''f3'' ''s2'' ''./a/z.txt'' 1 True)]"

text \<open>
  An instance of the library parameters for the concrete runs, after the library's
  documentation: \<^verbatim>\<open>MakeRelativePath\<close> joins the path to \<^verbatim>\<open>/\<close>, cleans it and puts a dot in
  front; resource ids are written \<^verbatim>\<open>storage$space!opaque\<close>.
\<close>

fun split_slash :: "string \<Rightarrow> string list" where
  "split_slash [] = [[]]"
| "split_slash (c # cs) =
     (if c = CHR ''/'' then [] # split_slash cs
      else (case split_slash cs of x # xs \<Rightarrow> (c # x) # xs | [] \<Rightarrow> [[c]]))"

fun clean_elements :: "string list \<Rightarrow> string list \<Rightarrow> string list" where
  "clean_elements [] acc = rev acc"
| "clean_elements (x # xs) acc =
     (if x = [] \<or> x = ''.'' then clean_elements xs acc
      else if x = ''..'' then clean_elements xs (tl acc)
      else clean_elements xs (x # acc))"

definition reva_model :: reva where
  "reva_model =
     \<lparr>MakeRelativePath = (\<lambda>p.
        (case clean_elements (split_slash p) [] of
           [] \<Rightarrow> ''.''
         | xs \<Rightarrow> ''.'' @ concat (map (\<lambda>x. ''/'' @ x) xs))),
      FormatResourceID = (\<lambda>r. StorageId r @ ''$'' @ SpaceId r @ ''!'' @ OpaqueId r),
      ParseID = (\<lambda>s.
        (if s = []
         then (\<lparr>StorageId = [], SpaceId = [], OpaqueId = []\<rparr>,
               Some (ErrorString ''invalid storage space id''))
         else (let st = takeWhile (\<lambda>c. c \<noteq> CHR ''$'') s;
                   rest = drop (length st + 1) s;
                   sp = takeWhile (\<lambda>c. c \<noteq> CHR ''!'') rest
               in (\<lparr>StorageId = st, SpaceId = sp, OpaqueId = drop (length sp + 1) rest\<rparr>,
                   None))))\<rparr>"

section \<open>Properties\<close>

subsection \<open>Push on an empty batch\<close>

lemma pushBulkOperations_Nil: "pushBulkOperations [] e = (None, [], e)"
  by (simp add: pushBulkOperations_def)

lemma bleve_Push_Nil: "bleve_batch b = [] \<Longrightarrow> bleve_Push b e = (None, b, e)"
  by (simp add: bleve_Push_def)

lemma opensearch_Push_Nil: "operations b = [] \<Longrightarrow> opensearch_Push b e = (None, b, e)"
  by (simp add: opensearch_Push_def pushBulkOperations_Nil)

lemma bleve_Push_ok_batch:
  "bleve_Push b e = (None, b', e') \<Longrightarrow> bleve_batch b' = []"
  by (auto simp: bleve_Push_def split: if_splits prod.splits option.splits)

lemma opensearch_Push_operations:
  "opensearch_Push b e = (r, b', e') \<Longrightarrow> operations b' = []"
  by (auto simp: opensearch_Push_def split: prod.splits)

text \<open>
  Claim C10. A \<^verbatim>\<open>Push\<close> on a batch with nothing staged returns \<^verbatim>\<open>nil\<close> and leaves the batch
  and the engine as they are: the engine's documents, its fault schedule and its request
  log are the same, so no request was issued. Hence a \<^verbatim>\<open>Push\<close> that follows a successful
  \<^verbatim>\<open>Push\<close> changes nothing, on the embedded and on the clustered backend.
\<close>

theorem Push_empty_is_noop:
  "(bleve_batch b = [] \<longrightarrow> bleve_Push b e = (None, b, e)) \<and>
   (operations ob = [] \<longrightarrow> opensearch_Push ob e = (None, ob, e)) \<and>
   (bleve_Push b e = (None, b', e') \<longrightarrow> bleve_Push b' e' = (None, b', e')) \<and>
   (opensearch_Push ob e = (None, ob', e'') \<longrightarrow> opensearch_Push ob' e'' = (None, ob', e''))"
  using bleve_Push_Nil bleve_Push_ok_batch opensearch_Push_Nil opensearch_Push_operations
  by blast

theorem Push_empty_is_noop_witness:
  "bleve_batch \<lparr>bleve_batch = [], bleve_size = 50\<rparr> = [] \<and>
   bleve_Push \<lparr>bleve_batch = [], bleve_size = 50\<rparr> (healthy_engine []) =
     (None, \<lparr>bleve_batch = [], bleve_size = 50\<rparr>, healthy_engine []) \<and>
   operations \<lparr>opensearch_index = ''idx'', opensearch_size = 50, operations = []\<rparr> = [] \<and>
   opensearch_Push \<lparr>opensearch_index = ''idx'', opensearch_size = 50, operations = []\<rparr>
       (healthy_engine []) =
     (None, \<lparr>opensearch_index = ''idx'', opensearch_size = 50, operations = []\<rparr>,
      healthy_engine []) \<and>
   bleve_Push
       \<lparr>bleve_batch = [(''f1'', Some (resource ''f1'' ''s1'' ''./a.txt'' 1 False))], bleve_size = 50\<rparr>
       (healthy_engine []) =
     (None, \<lparr>bleve_batch = [], bleve_size = 50\<rparr>,
      \<lparr>docs = [(''f1'', resource ''f1'' ''s1'' ''./a.txt'' 1 False)], faults = [],
       requests = [ReqBatch 1]\<rparr>) \<and>
   bleve_Push \<lparr>bleve_batch = [], bleve_size = 50\<rparr>
       \<lparr>docs = [(''f1'', resource ''f1'' ''s1'' ''./a.txt'' 1 False)], faults = [],
        requests = [ReqBatch 1]\<rparr> =
     (None, \<lparr>bleve_batch = [], bleve_size = 50\<rparr>,
      \<lparr>docs = [(''f1'', resource ''f1'' ''s1'' ''./a.txt'' 1 False)], faults = [],
       requests = [ReqBatch 1]\<rparr>) \<and>
   opensearch_Push
       \<lparr>opensearch_index = ''idx'', opensearch_size = 50,
        operations = [FuncBulk [ActionIndex ''idx'' ''f1'',
                                Source (resource ''f1'' ''s1'' ''./a.txt'' 1 False)]]\<rparr>
       (healthy_engine []) =
     (None, \<lparr>opensearch_index = ''idx'', opensearch_size = 50, operations = []\<rparr>,
      \<lparr>docs = [(''f1'', resource ''f1'' ''s1'' ''./a.txt'' 1 False)], faults = [],
       requests = [ReqBulk 2]\<rparr>) \<and>
   opensearch_Push \<lparr>opensearch_index = ''idx'', opensearch_size = 50, operations = []\<rparr>
       \<lparr>docs = [(''f1'', resource ''f1'' ''s1'' ''./a.txt'' 1 False)], faults = [],
        requests = [ReqBulk 2]\<rparr> =
     (None, \<lparr>opensearch_index = ''idx'', opensearch_size = 50, operations = []\<rparr>,
      \<lparr>docs = [(''f1'', resource ''f1'' ''s1'' ''./a.txt'' 1 False)], faults = [],
       requests = [ReqBulk 2]\<rparr>)"
proof -
  have b: "bleve_Push
       \<lparr>bleve_batch = [(''f1'', Some (resource ''f1'' ''s1'' ''./a.txt'' 1 False))], bleve_size = 50\<rparr>
       (healthy_engine []) =
     (None, \<lparr>bleve_batch = [], bleve_size = 50\<rparr>,
      \<lparr>docs = [(''f1'', resource ''f1'' ''s1'' ''./a.txt'' 1 False)], faults = [],
       requests = [ReqBatch 1]\<rparr>)"
    by (simp add: bleve_Push_def index_Batch_def receive_def healthy_engine_def)
  have c: "opensearch_Push
       \<lparr>opensearch_index = ''idx'', opensearch_size = 50,
        operations = [FuncBulk [ActionIndex ''idx'' ''f1'',
                                Source (resource ''f1'' ''s1'' ''./a.txt'' 1 False)]]\<rparr>
       (healthy_engine []) =
     (None, \<lparr>opensearch_index = ''idx'', opensearch_size = 50, operations = []\<rparr>,
      \<lparr>docs = [(''f1'', resource ''f1'' ''s1'' ''./a.txt'' 1 False)], faults = [],
       requests = [ReqBulk 2]\<rparr>)"
    by (simp add: opensearch_Push_def pushBulkOperations_def client_Bulk_def receive_def
        healthy_engine_def)
  from b c
    Push_empty_is_noop [of "\<lparr>bleve_batch = [], bleve_size = 50\<rparr>" "healthy_engine []"
      "\<lparr>opensearch_index = ''idx'', opensearch_size = 50, operations = []\<rparr>"]
    Push_empty_is_noop [of
      "\<lparr>bleve_batch = [(''f1'', Some (resource ''f1'' ''s1'' ''./a.txt'' 1 False))], bleve_size = 50\<rparr>"
      "healthy_engine []"
      "\<lparr>opensearch_index = ''idx'', opensearch_size = 50,
        operations = [FuncBulk [ActionIndex ''idx'' ''f1'',
                                Source (resource ''f1'' ''s1'' ''./a.txt'' 1 False)]]\<rparr>"
      "\<lparr>bleve_batch = [], bleve_size = 50\<rparr>"
      "\<lparr>docs = [(''f1'', resource ''f1'' ''s1'' ''./a.txt'' 1 False)], faults = [],
       requests = [ReqBatch 1]\<rparr>"
      "\<lparr>opensearch_index = ''idx'', opensearch_size = 50, operations = []\<rparr>"
      "\<lparr>docs = [(''f1'', resource ''f1'' ''s1'' ''./a.txt'' 1 False)], faults = [],
       requests = [ReqBulk 2]\<rparr>"]
  show ?thesis by simp
qed

subsection \<open>Push clears the staged operations\<close>

text \<open>
  Claim C5. The clustered backend empties the staged sequence on every return of \<^verbatim>\<open>Push\<close>
  (lemma \<open>opensearch_Push_operations\<close> above). The embedded backend resets its batch only
  after \<^verbatim>\<open>index.Batch\<close> has succeeded: when the engine refuses the batch, \<^verbatim>\<open>Push\<close> returns the
  error and the upsert of \<open>f1\<close> stays staged, and the next \<^verbatim>\<open>Push\<close> on the same batch replays
  it.
\<close>

theorem bleve_Push_failure_keeps_staged:
  "bleve_Push
       \<lparr>bleve_batch = [(''f1'', Some (resource ''f1'' ''s1'' ''./a.txt'' 1 False))], bleve_size = 50\<rparr>
       \<lparr>docs = [], faults = [Unavailable], requests = []\<rparr> =
     (Some EngineError,
      \<lparr>bleve_batch = [(''f1'', Some (resource ''f1'' ''s1'' ''./a.txt'' 1 False))], bleve_size = 50\<rparr>,
      \<lparr>docs = [], faults = [], requests = [ReqBatch 1]\<rparr>) \<and>
   bleve_Push
       \<lparr>bleve_batch = [(''f1'', Some (resource ''f1'' ''s1'' ''./a.txt'' 1 False))], bleve_size = 50\<rparr>
       \<lparr>docs = [], faults = [], requests = [ReqBatch 1]\<rparr> =
     (None, \<lparr>bleve_batch = [], bleve_size = 50\<rparr>,
      \<lparr>docs = [(''f1'', resource ''f1'' ''s1'' ''./a.txt'' 1 False)], faults = [],
       requests = [ReqBatch 1, ReqBatch 1]\<rparr>)"
  by (simp add: bleve_Push_def index_Batch_def receive_def)

subsection \<open>Push keeps the order of submission\<close>

lemma opensearch_Push_loop_bulk:
  "opensearch_Push_loop (map FuncBulk lss @ ops) acc e =
   opensearch_Push_loop ops (acc @ concat lss) e"
  by (induction lss arbitrary: acc) simp_all

lemma pushBulkOperations_ok:
  "pushBulkOperations ls e = (None, ls', e') \<Longrightarrow> ls' = []"
  by (auto simp: pushBulkOperations_def split: if_splits prod.splits option.splits)

lemma opensearch_Push_loop_FuncError:
  "opensearch_Push_loop (map FuncBulk lss @ FuncError op # ops) [] e =
     (case pushBulkOperations (concat lss) e of
        (Some err, ls', e') \<Rightarrow> (Some (Wrap ''failed to push operations'' err), e')
      | (None, ls', e') \<Rightarrow>
          (case op e' of
             (Some err, e'') \<Rightarrow> (Some (Wrap ''failed to execute operation'' err), e'')
           | (None, e'') \<Rightarrow> opensearch_Push_loop ops [] e''))"
  by (auto simp: opensearch_Push_loop_bulk split: prod.splits option.splits
      dest: pushBulkOperations_ok)

text \<open>
  Claim C1. Let the staged sequence of the clustered backend's batch start with bulk
  entries, followed by a query-addressed operation \<open>op\<close> and the remaining operations
  \<open>ops\<close>. Then \<^verbatim>\<open>Push\<close> sends the lines of the bulk entries, in the order of submission, in one
  bulk request (none when there are no lines); if that succeeds it runs \<open>op\<close> on the engine
  state the bulk request has produced; and if \<open>op\<close> succeeds it goes on as \<^verbatim>\<open>Push\<close> does on
  \<open>ops\<close>. A sequence of bulk entries only is sent in one bulk request. In particular, for
  the upserts of \<open>a\<close> and \<open>b\<close>, a delete-by-query on the path of \<open>b\<close> and the upsert of \<open>c\<close>,
  pushed to an empty healthy index: the bulk request of the first two upserts makes \<open>a\<close>
  and \<open>b\<close> documents of the index, and after \<^verbatim>\<open>Push\<close> the index holds \<open>a\<close> and \<open>c\<close> and has
  received a bulk request, the delete-by-query and a second bulk request.
\<close>

theorem opensearch_Push_preserves_order:
  "opensearch_Push (b\<lparr>operations := map FuncBulk lss @ FuncError op # ops\<rparr>) e =
     (case pushBulkOperations (concat lss) e of
        (Some err, ls', e') \<Rightarrow>
          (Some (Wrap ''failed to push operations'' err), b\<lparr>operations := []\<rparr>, e')
      | (None, ls', e') \<Rightarrow>
          (case op e' of
             (Some err, e'') \<Rightarrow>
               (Some (Wrap ''failed to execute operation'' err), b\<lparr>operations := []\<rparr>, e'')
           | (None, e'') \<Rightarrow> opensearch_Push (b\<lparr>operations := ops\<rparr>) e'')) \<and>
   opensearch_Push (b\<lparr>operations := map FuncBulk lss\<rparr>) e =
     (case pushBulkOperations (concat lss) e of (r, ls', e') \<Rightarrow> (r, b\<lparr>operations := []\<rparr>, e')) \<and>
   pushBulkOperations
       [ActionIndex ''idx'' ''a'', Source (resource ''a'' ''s1'' ''./a.txt'' 1 False),
        ActionIndex ''idx'' ''b'', Source (resource ''b'' ''s1'' ''./b.txt'' 1 False)]
       (healthy_engine []) =
     (None, [],
      \<lparr>docs = [(''a'', resource ''a'' ''s1'' ''./a.txt'' 1 False),
               (''b'', resource ''b'' ''s1'' ''./b.txt'' 1 False)],
       faults = [], requests = [ReqBulk 4]\<rparr>) \<and>
   opensearch_Push
       \<lparr>opensearch_index = ''idx'', opensearch_size = 50,
        operations =
          [FuncBulk [ActionIndex ''idx'' ''a'', Source (resource ''a'' ''s1'' ''./a.txt'' 1 False)],
           FuncBulk [ActionIndex ''idx'' ''b'', Source (resource ''b'' ''s1'' ''./b.txt'' 1 False)],
           FuncError (opensearch_Purge_op path_hierarchy
             (QueryOfBool (Must (TermQuery_string ''Path'' ''./b.txt'') NewBoolQuery))),
           FuncBulk [ActionIndex ''idx'' ''c'', Source (resource ''c'' ''s1'' ''./c.txt'' 1 False)]]\<rparr>
       (healthy_engine []) =
     (None, \<lparr>opensearch_index = ''idx'', opensearch_size = 50, operations = []\<rparr>,
      \<lparr>docs = [(''a'', resource ''a'' ''s1'' ''./a.txt'' 1 False),
               (''c'', resource ''c'' ''s1'' ''./c.txt'' 1 False)],
       faults = [], requests = [ReqBulk 4, ReqDeleteByQuery, ReqBulk 2]\<rparr>)"
proof -
  have 1: "opensearch_Push (b\<lparr>operations := map FuncBulk lss @ FuncError op # ops\<rparr>) e =
     (case pushBulkOperations (concat lss) e of
        (Some err, ls', e') \<Rightarrow>
          (Some (Wrap ''failed to push operations'' err), b\<lparr>operations := []\<rparr>, e')
      | (None, ls', e') \<Rightarrow>
          (case op e' of
             (Some err, e'') \<Rightarrow>
               (Some (Wrap ''failed to execute operation'' err), b\<lparr>operations := []\<rparr>, e'')
           | (None, e'') \<Rightarrow> opensearch_Push (b\<lparr>operations := ops\<rparr>) e''))"
    by (simp add: opensearch_Push_def opensearch_Push_loop_FuncError
        split: prod.splits option.splits)
  have 2: "opensearch_Push (b\<lparr>operations := map FuncBulk lss\<rparr>) e =
     (case pushBulkOperations (concat lss) e of (r, ls', e') \<Rightarrow> (r, b\<lparr>operations := []\<rparr>, e'))"
    using opensearch_Push_loop_bulk [of lss "[]" "[]" e]
    by (simp add: opensearch_Push_def split: prod.splits)
  have 3: "pushBulkOperations
       [ActionIndex ''idx'' ''a'', Source (resource ''a'' ''s1'' ''./a.txt'' 1 False),
        ActionIndex ''idx'' ''b'', Source (resource ''b'' ''s1'' ''./b.txt'' 1 False)]
       (healthy_engine []) =
     (None, [],
      \<lparr>docs = [(''a'', resource ''a'' ''s1'' ''./a.txt'' 1 False),
               (''b'', resource ''b'' ''s1'' ''./b.txt'' 1 False)],
       faults = [], requests = [ReqBulk 4]\<rparr>)"
    by (simp add: pushBulkOperations_def client_Bulk_def receive_def healthy_engine_def)
  have 4: "opensearch_Push
       \<lparr>opensearch_index = ''idx'', opensearch_size = 50,
        operations =
          [FuncBulk [ActionIndex ''idx'' ''a'', Source (resource ''a'' ''s1'' ''./a.txt'' 1 False)],
           FuncBulk [ActionIndex ''idx'' ''b'', Source (resource ''b'' ''s1'' ''./b.txt'' 1 False)],
           FuncError (opensearch_Purge_op path_hierarchy
             (QueryOfBool (Must (TermQuery_string ''Path'' ''./b.txt'') NewBoolQuery))),
           FuncBulk [ActionIndex ''idx'' ''c'', Source (resource ''c'' ''s1'' ''./c.txt'' 1 False)]]\<rparr>
       (healthy_engine []) =
     (None, \<lparr>opensearch_index = ''idx'', opensearch_size = 50, operations = []\<rparr>,
      \<lparr>docs = [(''a'', resource ''a'' ''s1'' ''./a.txt'' 1 False),
               (''c'', resource ''c'' ''s1'' ''./c.txt'' 1 False)],
       faults = [], requests = [ReqBulk 4, ReqDeleteByQuery, ReqBulk 2]\<rparr>)"
    by (simp add: opensearch_Push_def pushBulkOperations_def client_Bulk_def receive_def
        healthy_engine_def opensearch_Purge_op_def client_DeleteByQuery_def NewBoolQuery_def
        path_hierarchy_def resource_def)
  from 1 2 3 4 show ?thesis by blast
qed

subsection \<open>A healthy engine and the staged upserts\<close>

lemma receive_healthy: "faults e = [] \<Longrightarrow> receive r e = (Healthy, e\<lparr>requests := requests e @ [r]\<rparr>)"
  by (simp add: receive_def)

lemma index_Search_healthy:
  "faults e = [] \<Longrightarrow> index_Search q n e =
     (Inr (take (nat n) (filter (query_matches q) (docs e)), of_nat (length (filter (query_matches q) (docs e)))),
      e\<lparr>requests := requests e @ [ReqSearch n]\<rparr>)"
  by (simp add: index_Search_def receive_healthy)

lemma filter_key: "distinct (map fst ds) \<Longrightarrow> map_of ds i = Some c \<Longrightarrow> filter (\<lambda>d. fst d = i) ds = [(i, c)]"
proof (induction ds)
  case Nil then show ?case by simp
next
  case (Cons d ds)
  show ?case
  proof (cases "fst d = i")
    case True
    with Cons.prems have "d = (i, c)" by (cases d) auto
    moreover have "i \<notin> fst ` set ds"
      using Cons.prems True by auto
    then have "filter (\<lambda>d. fst d = i) ds = []"
      unfolding filter_empty_conv by (metis imageI)
    ultimately show ?thesis by simp
  next
    case False
    with Cons show ?thesis by (cases d) auto
  qed
qed

lemma filter_key_None: "map_of ds i = None \<Longrightarrow> filter (\<lambda>d. fst d = i) ds = []"
  by (auto simp: filter_empty_conv map_of_eq_None_iff)

lemma matches_DocID: "query_matches (DocIDQuery [i]) = (\<lambda>d. fst d = i)"
  by (auto simp: fun_eq_iff)

lemma searchByID_found:
  "faults e = [] \<Longrightarrow> distinct (map fst (docs e)) \<Longrightarrow> map_of (docs e) i = Some c \<Longrightarrow>
   bleve_searchResourceByID i e = (Inr (c\<lparr>Hidden := False\<rparr>), e\<lparr>requests := requests e @ [ReqSearch 10]\<rparr>)"
  by (simp add: bleve_searchResourceByID_def index_Search_healthy matches_DocID filter_key matchToResource_def)

lemma searchByID_missing:
  "faults e = [] \<Longrightarrow> map_of (docs e) i = None \<Longrightarrow>
   bleve_searchResourceByID i e = (Inl (ErrorString ''entity not found''), e\<lparr>requests := requests e @ [ReqSearch 10]\<rparr>)"
  by (simp add: bleve_searchResourceByID_def index_Search_healthy matches_DocID filter_key_None)


lemma searchByPath_healthy:
  "faults e = [] \<Longrightarrow> int (length (docs e)) \<le> MaxInt \<Longrightarrow>
   searchResourcesByPath root p e =
     (Inr (map matchToResource (filter (\<lambda>d. RootID (snd d) = root \<and> prefix (p @ ''/'') (Path (snd d))) (docs e))),
      e\<lparr>requests := requests e @ [ReqSearch MaxInt]\<rparr>)"
proof -
  assume h: "faults e = []" "int (length (docs e)) \<le> MaxInt"
  have m: "query_matches (ConjunctionQuery [RootIDQuery root, PathPrefixQuery p]) = (\<lambda>d. RootID (snd d) = root \<and> prefix (p @ ''/'') (Path (snd d)))"
    by (auto simp: fun_eq_iff)
  have "length (filter (\<lambda>d. RootID (snd d) = root \<and> prefix (p @ ''/'') (Path (snd d))) (docs e)) \<le> length (docs e)"
    by (rule length_filter_le)
  with h have "length (filter (\<lambda>d. RootID (snd d) = root \<and> prefix (p @ ''/'') (Path (snd d))) (docs e)) \<le> nat MaxInt"
    by linarith
  then show ?thesis using h by (simp add: searchResourcesByPath_def index_Search_healthy m)
qed

lemma index_resources_ok:
  "list_all (\<lambda>r. ID r \<noteq> []) rs \<Longrightarrow>
   index_resources rs ops = (None, fold (\<lambda>r. AList.update (ID r) (Some r)) rs ops)"
  by (induction rs arbitrary: ops) (simp_all add: batch_Index_def)

lemma map_of_fold_update:
  "map_of (fold (\<lambda>r. AList.update (ID r) (Some r)) rs ops) k =
     (case map_of (map (\<lambda>r. (ID r, r)) (rev rs)) k of Some r \<Rightarrow> Some (Some r) | None \<Rightarrow> map_of ops k)"
proof (induction rs arbitrary: ops)
  case Nil then show ?case by simp
next
  case (Cons r rs)
  show ?case
    by (simp add: Cons.IH update_conv' map_add_def split: option.splits)
qed

lemma distinct_fold_update:
  "distinct (map fst ops) \<Longrightarrow> distinct (map fst (fold (\<lambda>r. AList.update (ID r) (Some r)) rs ops))"
  by (induction rs arbitrary: ops) (simp_all add: distinct_update)

lemma map_of_fold_apply_op:
  "distinct (map fst ops) \<Longrightarrow>
   map_of (fold apply_op ops ds) k =
     (case map_of ops k of None \<Rightarrow> map_of ds k | Some None \<Rightarrow> None | Some (Some r) \<Rightarrow> Some r)"
proof (induction ops arbitrary: ds)
  case Nil then show ?case by simp
next
  case (Cons op ops)
  obtain i v where op: "op = (i, v)" by (cases op)
  from Cons.prems op have d: "distinct (map fst ops)" and n: "map_of ops i = None"
    by (auto simp: map_of_eq_None_iff)
  have ih: "map_of (fold apply_op ops (apply_op op ds)) k =
     (case map_of ops k of None \<Rightarrow> map_of (apply_op op ds) k | Some None \<Rightarrow> None | Some (Some r) \<Rightarrow> Some r)"
    using Cons.IH [OF d] .
  show ?case
  proof (cases "k = i")
    case True
    with op n ih show ?thesis
      by (cases v) (simp_all add: delete_conv' update_conv')
  next
    case False
    with op ih show ?thesis
      by (cases v) (simp_all add: delete_conv' update_conv' split: option.splits)
  qed
qed


lemma index_Batch_healthy:
  "faults e = [] \<Longrightarrow> index_Batch ops e =
     (None, e\<lparr>requests := requests e @ [ReqBatch (length ops)], docs := fold apply_op ops (docs e)\<rparr>)"
  by (simp add: index_Batch_def receive_healthy)

lemma bleve_Backend_apply_ok:
  assumes f: "f \<lparr>bleve_batch = [], bleve_size = defaultBatchSize\<rparr> e =
                (None, \<lparr>bleve_batch = ops, bleve_size = defaultBatchSize\<rparr>, e1)"
    and h: "faults e1 = []"
  shows "\<exists>e'. bleve_Backend_apply (bleve_withSizeLimit f) e = (None, e') \<and>
           docs e' = fold apply_op ops (docs e1) \<and> faults e' = []"
proof (cases "ops = []")
  case True
  with f h show ?thesis
    by (simp add: bleve_Backend_apply_def bleve_NewBatch_def defaultBatchSize_def
        bleve_withSizeLimit_def bleve_Push_def)
next
  case False
  with f h show ?thesis
    by (simp add: bleve_Backend_apply_def bleve_NewBatch_def defaultBatchSize_def
        bleve_withSizeLimit_def bleve_Push_def index_Batch_healthy)
qed

lemma map_of_ID_in:
  "distinct (map ID rs) \<Longrightarrow> r \<in> set rs \<Longrightarrow> map_of (map (\<lambda>r. (ID r, r)) (rev rs)) (ID r) = Some r"
  by (rule map_of_is_SomeI) (simp_all add: comp_def rev_map [symmetric])

lemma map_of_ID_out:
  "k \<notin> ID ` set rs \<Longrightarrow> map_of (map (\<lambda>r. (ID r, r)) (rev rs)) k = None"
  by (force simp: map_of_eq_None_iff)

lemma staged_lookup:
  assumes "list_all (\<lambda>r. ID r \<noteq> []) rs"
  shows "index_resources rs [] = (None, fold (\<lambda>r. AList.update (ID r) (Some r)) rs []) \<and>
     map_of (fold apply_op (fold (\<lambda>r. AList.update (ID r) (Some r)) rs []) ds) k =
       (case map_of (map (\<lambda>r. (ID r, r)) (rev rs)) k of Some r \<Rightarrow> Some r | None \<Rightarrow> map_of ds k)"
proof -
  have d: "distinct (map fst (fold (\<lambda>r. AList.update (ID r) (Some r)) rs []))"
    by (rule distinct_fold_update) simp
  show ?thesis
    using assms
    by (simp add: index_resources_ok map_of_fold_apply_op [OF d] map_of_fold_update
        split: option.splits)
qed


lemma wf_docs_in: "wf_docs ds \<Longrightarrow> (k, d) \<in> set ds \<Longrightarrow> k \<noteq> [] \<and> ID d = k"
  by (auto simp: wf_docs_def list_all_iff)

lemma wf_docs_map_of: "wf_docs ds \<Longrightarrow> map_of ds k = Some d \<Longrightarrow> k \<noteq> [] \<and> ID d = k"
  by (auto dest: map_of_SomeD wf_docs_in)

lemma not_descendant_self: "\<not> descendant c c"
  by (simp add: descendant_def prefix_def)

lemma cascade_lookup:
  assumes wf: "wf_docs ds" and c: "map_of ds i = Some c"
    and g: "\<And>d. ID (g d) = ID d" and r: "ID root' = i"
  defines "rs \<equiv> root' # map g (map matchToResource (filter (\<lambda>d. descendant c (snd d)) ds))"
  shows "list_all (\<lambda>r. ID r \<noteq> []) rs"
    and "map_of (map (\<lambda>r. (ID r, r)) (rev rs)) k =
      (if k = i then Some root'
       else (case map_of ds k of
               Some d \<Rightarrow> if descendant c d then Some (g (d\<lparr>Hidden := False\<rparr>)) else None
             | None \<Rightarrow> None))"
proof -
  let ?hits = "filter (\<lambda>d. descendant c (snd d)) ds"
  have dist: "distinct (map fst ds)" using wf by (simp add: wf_docs_def)
  have ids: "map ID (map g (map matchToResource ?hits)) = map fst ?hits"
    using wf by (auto simp: g matchToResource_def dest: wf_docs_in)
  have dh: "distinct (map fst ?hits)" using dist by (simp add: distinct_map_filter)
  have inot: "i \<notin> fst ` set ?hits"
  proof
    assume "i \<in> fst ` set ?hits"
    then obtain d where "(i, d) \<in> set ds" "descendant c d" by auto
    with dist c have "d = c" by (metis map_of_is_SomeI option.inject)
    with \<open>descendant c d\<close> show False by (simp add: not_descendant_self)
  qed
  have idrs: "map ID rs = i # map fst ?hits"
    unfolding rs_def list.map ids r ..
  have drs: "distinct (map ID rs)" using dh inot by (simp add: idrs)
  have setrs: "ID ` set rs = insert i (fst ` set ?hits)"
    using idrs by (metis image_set list.simps(15))
  show "list_all (\<lambda>r. ID r \<noteq> []) rs"
    using wf c r by (auto simp: rs_def list_all_iff g matchToResource_def dest: wf_docs_in wf_docs_map_of)
  show "map_of (map (\<lambda>r. (ID r, r)) (rev rs)) k =
      (if k = i then Some root'
       else (case map_of ds k of
               Some d \<Rightarrow> if descendant c d then Some (g (d\<lparr>Hidden := False\<rparr>)) else None
             | None \<Rightarrow> None))"
  proof (cases "k = i")
    case True
    have "root' \<in> set rs" by (simp add: rs_def)
    from map_of_ID_in [OF drs this] True r show ?thesis by simp
  next
    case False
    show ?thesis
    proof (cases "map_of ds k")
      case None
      then have "k \<notin> fst ` set ?hits" by (auto simp: map_of_eq_None_iff)
      with False have "k \<notin> ID ` set rs" by (simp add: setrs)
      with None False show ?thesis by (simp add: map_of_ID_out)
    next
      case (Some d)
      then have in_ds: "(k, d) \<in> set ds" by (rule map_of_SomeD)
      show ?thesis
      proof (cases "descendant c d")
        case True
        with in_ds have "g (matchToResource (k, d)) \<in> set rs" by (force simp: rs_def)
        moreover have "ID (g (matchToResource (k, d))) = k"
          using wf in_ds by (auto simp: g matchToResource_def dest: wf_docs_in)
        ultimately have "map_of (map (\<lambda>r. (ID r, r)) (rev rs)) k = Some (g (matchToResource (k, d)))"
          using map_of_ID_in [OF drs] by metis
        with Some True False show ?thesis by (simp add: matchToResource_def)
      next
        case nd: False
        have "k \<notin> fst ` set ?hits"
        proof
          assume "k \<in> fst ` set ?hits"
          then obtain d2 where "(k, d2) \<in> set ds" "descendant c d2" by auto
          with dist Some have "d2 = d" by (metis map_of_is_SomeI option.inject)
          with \<open>descendant c d2\<close> nd show False by simp
        qed
        with False have "k \<notin> ID ` set rs" by (simp add: setrs)
        with Some nd False show ?thesis by (simp add: map_of_ID_out)
      qed
    qed
  qed
qed

subsection \<open>Move rewrites the path prefix\<close>

lemma bleve_Backend_apply_okE:
  assumes "f \<lparr>bleve_batch = [], bleve_size = defaultBatchSize\<rparr> e =
                (None, \<lparr>bleve_batch = ops, bleve_size = defaultBatchSize\<rparr>, e1)"
    and "faults e1 = []"
    and "\<And>e'. docs e' = fold apply_op ops (docs e1) \<Longrightarrow> Q e'"
  shows "\<exists>e'. bleve_Backend_apply (bleve_withSizeLimit f) e = (None, e') \<and> Q e'"
  using bleve_Backend_apply_ok [of f e ops e1] assms by blast

lemma Replace1_prefix: "prefix old s \<Longrightarrow> Replace1 s old new = new @ drop (length old) s"
  by (cases s) simp_all

lemma descendant_prefix: "descendant c d \<Longrightarrow> prefix (Path c) (Path d)"
  by (auto simp: descendant_def dest: append_prefixD)

text \<open>
  Claim C2. Let the index be well formed, the engine healthy, and \<open>c\<close> the container stored
  under id \<open>i\<close>. Then \<^verbatim>\<open>Backend.Move\<close> succeeds, and afterwards: the document of \<open>c\<close> has the
  relative form of the location as its path, the last element of that path as its name
  and the given parent id; the document of every descendant \<open>d\<close> of \<open>c\<close> has the new path
  followed by what came after the path of \<open>c\<close> in the path of \<open>d\<close>; every other document is
  as it was, and no document has appeared. (Documents that are written back are read
  through \<^verbatim>\<open>matchToResource\<close>, hence \<open>Hidden := False\<close>.)
\<close>

theorem bleve_Move_prefix_cascade:
  assumes wf: "wf_docs (docs e)" and h: "faults e = []" and len: "int (length (docs e)) \<le> MaxInt"
    and c: "map_of (docs e) i = Some c" and t: "Type c = RESOURCE_TYPE_CONTAINER"
  shows "\<exists>e'. bleve_Backend_Move rv i parentID location e = (None, e') \<and>
     map_of (docs e') i =
       Some (c\<lparr>Hidden := False, Path := MakeRelativePath rv location,
               Name := path_Base (MakeRelativePath rv location), ParentID := parentID\<rparr>) \<and>
     (\<forall>k d. map_of (docs e) k = Some d \<and> descendant c d \<longrightarrow>
        map_of (docs e') k =
          Some (d\<lparr>Hidden := False,
                  Path := MakeRelativePath rv location @ drop (length (Path c)) (Path d)\<rparr>)) \<and>
     (\<forall>k d. map_of (docs e) k = Some d \<and> k \<noteq> i \<and> \<not> descendant c d \<longrightarrow>
        map_of (docs e') k = Some d) \<and>
     (\<forall>k. map_of (docs e) k = None \<longrightarrow> map_of (docs e') k = None)"
proof -
  define nxt where "nxt = MakeRelativePath rv location"
  define root' where
    "root' = c\<lparr>Hidden := False, Path := nxt, Name := path_Base nxt, ParentID := parentID\<rparr>"
  define g where "g = (\<lambda>d::Resource. d\<lparr>Path := Replace1 (Path d) (Path c) nxt\<rparr>)"
  define rs where
    "rs = root' # map g (map matchToResource (filter (\<lambda>d. descendant c (snd d)) (docs e)))"
  define e1 where "e1 = e\<lparr>requests := requests e @ [ReqSearch 10]\<rparr>"
  define e2 where "e2 = e1\<lparr>requests := requests e1 @ [ReqSearch MaxInt]\<rparr>"
  have dist: "distinct (map fst (docs e))" using wf by (simp add: wf_docs_def)
  have idc: "ID c = i" using wf c by (auto dest: wf_docs_map_of)
  have s1: "bleve_searchResourceByID i e = (Inr (c\<lparr>Hidden := False\<rparr>), e1)"
    using searchByID_found [OF h dist c] by (simp add: e1_def)
  have s2: "searchResourcesByPath (RootID c) (Path c) e1 =
      (Inr (map matchToResource (filter (\<lambda>d. descendant c (snd d)) (docs e))), e2)"
    using searchByPath_healthy [of e1 "RootID c" "Path c"] h len
    by (simp add: e1_def e2_def descendant_def)
  have gid: "\<And>d. ID (g d) = ID d" by (simp add: g_def)
  have rid: "ID root' = i" by (simp add: root'_def idc)
  note cl = cascade_lookup [OF wf c gid rid, folded rs_def]
  note st = staged_lookup [OF cl(1)]
  have f: "bleve_Move_func rv i parentID location
      \<lparr>bleve_batch = [], bleve_size = defaultBatchSize\<rparr> e =
      (None, \<lparr>bleve_batch = fold (\<lambda>r. AList.update (ID r) (Some r)) rs [],
              bleve_size = defaultBatchSize\<rparr>, e2)"
    using st [THEN conjunct1]
    by (simp add: bleve_Move_func_def s1 s2 t Let_def rs_def root'_def g_def nxt_def)
  have h2: "faults e2 = []" by (simp add: e2_def e1_def h)
  have d2: "docs e2 = docs e" by (simp add: e2_def e1_def)
  show ?thesis
    unfolding bleve_Backend_Move_def bleve_Move_def
  proof (rule bleve_Backend_apply_okE [of "bleve_Move_func rv i parentID location", OF f h2])
    fix e'
    assume "docs e' = fold apply_op (fold (\<lambda>r. AList.update (ID r) (Some r)) rs []) (docs e2)"
    then have lk: "\<And>k. map_of (docs e') k =
        (if k = i then Some root'
         else (case map_of (docs e) k of
                 Some d \<Rightarrow> if descendant c d then Some (g (d\<lparr>Hidden := False\<rparr>)) else Some d
               | None \<Rightarrow> None))"
      by (simp add: st [THEN conjunct2] cl(2) d2 split: option.splits)
    have nd: "\<not> descendant c c" by (rule not_descendant_self)
    show "map_of (docs e') i =
       Some (c\<lparr>Hidden := False, Path := MakeRelativePath rv location,
               Name := path_Base (MakeRelativePath rv location), ParentID := parentID\<rparr>) \<and>
     (\<forall>k d. map_of (docs e) k = Some d \<and> descendant c d \<longrightarrow>
        map_of (docs e') k =
          Some (d\<lparr>Hidden := False,
                  Path := MakeRelativePath rv location @ drop (length (Path c)) (Path d)\<rparr>)) \<and>
     (\<forall>k d. map_of (docs e) k = Some d \<and> k \<noteq> i \<and> \<not> descendant c d \<longrightarrow>
        map_of (docs e') k = Some d) \<and>
     (\<forall>k. map_of (docs e) k = None \<longrightarrow> map_of (docs e') k = None)"
    proof (intro conjI allI impI)
      show "map_of (docs e') i =
       Some (c\<lparr>Hidden := False, Path := MakeRelativePath rv location,
               Name := path_Base (MakeRelativePath rv location), ParentID := parentID\<rparr>)"
        by (simp add: lk root'_def nxt_def)
    next
      fix k d assume a: "map_of (docs e) k = Some d \<and> descendant c d"
      with c nd have "k \<noteq> i" by auto
      with a show "map_of (docs e') k =
          Some (d\<lparr>Hidden := False,
                  Path := MakeRelativePath rv location @ drop (length (Path c)) (Path d)\<rparr>)"
        by (simp add: lk g_def nxt_def Replace1_prefix [OF descendant_prefix])
    next
      fix k d assume "map_of (docs e) k = Some d \<and> k \<noteq> i \<and> \<not> descendant c d"
      then show "map_of (docs e') k = Some d" by (simp add: lk)
    next
      fix k assume "map_of (docs e) k = None"
      with c have "k \<noteq> i" by auto
      with \<open>map_of (docs e) k = None\<close> show "map_of (docs e') k = None" by (simp add: lk)
    qed
  qed
qed

lemma example_docs_hyps:
  "wf_docs (docs (healthy_engine example_docs)) \<and> faults (healthy_engine example_docs) = [] \<and>
   int (length (docs (healthy_engine example_docs))) \<le> MaxInt \<and>
   map_of (docs (healthy_engine example_docs)) ''d1'' = Some (resource ''d1'' ''s1'' ''./a'' 2 False) \<and>
   Type (resource ''d1'' ''s1'' ''./a'' 2 False) = RESOURCE_TYPE_CONTAINER"
  by (simp add: wf_docs_def healthy_engine_def example_docs_def MaxInt_def resource_def
      RESOURCE_TYPE_CONTAINER_def)

lemma example_docs_lookup:
  "map_of (docs (healthy_engine example_docs)) ''f1'' = Some (resource ''f1'' ''s1'' ''./a/x.txt'' 1 True)"
  "map_of (docs (healthy_engine example_docs)) ''f2'' = Some (resource ''f2'' ''s1'' ''./ab/y.txt'' 1 False)"
  "map_of (docs (healthy_engine example_docs)) ''f3'' = Some (resource ''f3'' ''s2'' ''./a/z.txt'' 1 True)"
  by (simp_all add: healthy_engine_def example_docs_def)

lemma example_docs_descendant:
  "descendant (resource ''d1'' ''s1'' ''./a'' 2 False) (resource ''f1'' ''s1'' ''./a/x.txt'' 1 True)"
  "\<not> descendant (resource ''d1'' ''s1'' ''./a'' 2 False) (resource ''f2'' ''s1'' ''./ab/y.txt'' 1 False)"
  "\<not> descendant (resource ''d1'' ''s1'' ''./a'' 2 False) (resource ''f3'' ''s2'' ''./a/z.txt'' 1 True)"
  by (simp_all add: descendant_def resource_def)

theorem bleve_Move_prefix_cascade_witness:
  "wf_docs (docs (healthy_engine example_docs)) \<and> faults (healthy_engine example_docs) = [] \<and>
   int (length (docs (healthy_engine example_docs))) \<le> MaxInt \<and>
   map_of (docs (healthy_engine example_docs)) ''d1'' = Some (resource ''d1'' ''s1'' ''./a'' 2 False) \<and>
   Type (resource ''d1'' ''s1'' ''./a'' 2 False) = RESOURCE_TYPE_CONTAINER \<and>
   (\<exists>e'. bleve_Backend_Move reva_model ''d1'' ''s1'' ''/b'' (healthy_engine example_docs) = (None, e') \<and>
      map_of (docs e') ''d1'' = Some (resource ''d1'' ''s1'' ''./b'' 2 False) \<and>
      map_of (docs e') ''f1'' = Some (resource ''f1'' ''s1'' ''./b/x.txt'' 1 True) \<and>
      map_of (docs e') ''f2'' = Some (resource ''f2'' ''s1'' ''./ab/y.txt'' 1 False) \<and>
      map_of (docs e') ''f3'' = Some (resource ''f3'' ''s2'' ''./a/z.txt'' 1 True))"
proof -
  note H = example_docs_hyps
  from bleve_Move_prefix_cascade [of "healthy_engine example_docs" "''d1''"
      "resource ''d1'' ''s1'' ''./a'' 2 False" reva_model "''s1''" "''/b''"] H
  obtain e' where
    r: "bleve_Backend_Move reva_model ''d1'' ''s1'' ''/b'' (healthy_engine example_docs) = (None, e')"
    and a: "map_of (docs e') ''d1'' =
       Some ((resource ''d1'' ''s1'' ''./a'' 2 False)\<lparr>Hidden := False,
               Path := MakeRelativePath reva_model ''/b'',
               Name := path_Base (MakeRelativePath reva_model ''/b''), ParentID := ''s1''\<rparr>)"
    and b: "\<And>k d. map_of (docs (healthy_engine example_docs)) k = Some d \<Longrightarrow>
        descendant (resource ''d1'' ''s1'' ''./a'' 2 False) d \<Longrightarrow>
        map_of (docs e') k =
          Some (d\<lparr>Hidden := False,
                  Path := MakeRelativePath reva_model ''/b'' @
                    drop (length (Path (resource ''d1'' ''s1'' ''./a'' 2 False))) (Path d)\<rparr>)"
    and c: "\<And>k d. map_of (docs (healthy_engine example_docs)) k = Some d \<Longrightarrow> k \<noteq> ''d1'' \<Longrightarrow>
        \<not> descendant (resource ''d1'' ''s1'' ''./a'' 2 False) d \<Longrightarrow> map_of (docs e') k = Some d"
    by blast
  have m: "MakeRelativePath reva_model ''/b'' = ''./b''" by (simp add: reva_model_def)
  have 1: "map_of (docs e') ''d1'' = Some (resource ''d1'' ''s1'' ''./b'' 2 False)"
    using a by (simp add: m resource_def path_Base_def)
  have 2: "map_of (docs e') ''f1'' = Some (resource ''f1'' ''s1'' ''./b/x.txt'' 1 True)"
    using b [OF example_docs_lookup(1) example_docs_descendant(1)] by (simp add: m resource_def)
  have 3: "map_of (docs e') ''f2'' = Some (resource ''f2'' ''s1'' ''./ab/y.txt'' 1 False)"
    using c [OF example_docs_lookup(2) _ example_docs_descendant(2)] by simp
  have 4: "map_of (docs e') ''f3'' = Some (resource ''f3'' ''s2'' ''./a/z.txt'' 1 True)"
    using c [OF example_docs_lookup(3) _ example_docs_descendant(3)] by simp
  from H r 1 2 3 4 show ?thesis by blast
qed

subsection \<open>Delete and Restore cascade\<close>

lemma deletion_state_lookup:
  assumes wf: "wf_docs (docs e)" and h: "faults e = []" and len: "int (length (docs e)) \<le> MaxInt"
    and c: "map_of (docs e) i = Some c"
  shows "\<exists>rs e2. searchAndUpdateResourcesDeletionState i s e = (Inr rs, e2) \<and> faults e2 = [] \<and>
     docs e2 = docs e \<and> list_all (\<lambda>r. ID r \<noteq> []) rs \<and>
     (\<forall>k. map_of (map (\<lambda>r. (ID r, r)) (rev rs)) k =
        (if k = i then Some (c\<lparr>Hidden := False, Deleted := s\<rparr>)
         else (case map_of (docs e) k of
                 Some d \<Rightarrow> if Type c = RESOURCE_TYPE_CONTAINER \<and> descendant c d
                           then Some (d\<lparr>Hidden := False, Deleted := s\<rparr>) else None
               | None \<Rightarrow> None)))"
proof -
  define root' where "root' = c\<lparr>Hidden := False, Deleted := s\<rparr>"
  define g where "g = (\<lambda>d::Resource. d\<lparr>Deleted := s\<rparr>)"
  define e1 where "e1 = e\<lparr>requests := requests e @ [ReqSearch 10]\<rparr>"
  define e2 where "e2 = e1\<lparr>requests := requests e1 @ [ReqSearch MaxInt]\<rparr>"
  have dist: "distinct (map fst (docs e))" using wf by (simp add: wf_docs_def)
  have idc: "ID c = i" "i \<noteq> []" using wf c by (auto dest: wf_docs_map_of)
  have s1: "bleve_searchResourceByID i e = (Inr (c\<lparr>Hidden := False\<rparr>), e1)"
    using searchByID_found [OF h dist c] by (simp add: e1_def)
  have s2: "searchResourcesByPath (RootID c) (Path c) e1 =
      (Inr (map matchToResource (filter (\<lambda>d. descendant c (snd d)) (docs e))), e2)"
    using searchByPath_healthy [of e1 "RootID c" "Path c"] h len
    by (simp add: e1_def e2_def descendant_def)
  have gid: "\<And>d. ID (g d) = ID d" by (simp add: g_def)
  have rid: "ID root' = i" by (simp add: root'_def idc)
  note cl = cascade_lookup [OF wf c gid rid]
  show ?thesis
  proof (cases "Type c = RESOURCE_TYPE_CONTAINER")
    case True
    then have "searchAndUpdateResourcesDeletionState i s e =
        (Inr (root' # map g (map matchToResource (filter (\<lambda>d. descendant c (snd d)) (docs e)))), e2)"
      by (simp add: searchAndUpdateResourcesDeletionState_def s1 s2 Let_def root'_def g_def)
    moreover have "faults e2 = []" "docs e2 = docs e" by (simp_all add: e2_def e1_def h)
    moreover note cl(1)
    moreover have "\<forall>k. map_of (map (\<lambda>r. (ID r, r))
          (rev (root' # map g (map matchToResource (filter (\<lambda>d. descendant c (snd d)) (docs e)))))) k =
        (if k = i then Some (c\<lparr>Hidden := False, Deleted := s\<rparr>)
         else (case map_of (docs e) k of
                 Some d \<Rightarrow> if Type c = RESOURCE_TYPE_CONTAINER \<and> descendant c d
                           then Some (d\<lparr>Hidden := False, Deleted := s\<rparr>) else None
               | None \<Rightarrow> None))"
      unfolding cl(2) using True by (simp add: root'_def g_def split: option.splits)
    ultimately show ?thesis by blast
  next
    case False
    then have "searchAndUpdateResourcesDeletionState i s e = (Inr [root'], e1)"
      by (simp add: searchAndUpdateResourcesDeletionState_def s1 Let_def root'_def)
    moreover have "faults e1 = []" "docs e1 = docs e" by (simp_all add: e1_def h)
    ultimately show ?thesis
      using False idc by (auto simp: root'_def split: option.splits)
  qed
qed

lemma deletion_state_pushed:
  assumes wf: "wf_docs (docs e)" and h: "faults e = []" and len: "int (length (docs e)) \<le> MaxInt"
    and c: "map_of (docs e) i = Some c"
    and f: "\<And>b e. f b e = (case searchAndUpdateResourcesDeletionState i s e of
          (Inl err, e') \<Rightarrow> (Some err, b, e')
        | (Inr affectedResources, e') \<Rightarrow>
            (case index_resources affectedResources (bleve_batch b) of
               (r, ops) \<Rightarrow> (r, b\<lparr>bleve_batch := ops\<rparr>, e')))"
  shows "\<exists>e'. bleve_Backend_apply (bleve_withSizeLimit f) e = (None, e') \<and>
     (\<forall>k. map_of (docs e') k =
        (if k = i then Some (c\<lparr>Hidden := False, Deleted := s\<rparr>)
         else (case map_of (docs e) k of
                 Some d \<Rightarrow> if Type c = RESOURCE_TYPE_CONTAINER \<and> descendant c d
                           then Some (d\<lparr>Hidden := False, Deleted := s\<rparr>) else Some d
               | None \<Rightarrow> None)))"
proof -
  from deletion_state_lookup [OF wf h len c, of s] obtain rs e2 where
    s: "searchAndUpdateResourcesDeletionState i s e = (Inr rs, e2)" and h2: "faults e2 = []"
    and d2: "docs e2 = docs e" and la: "list_all (\<lambda>r. ID r \<noteq> []) rs"
    and lk: "\<And>k. map_of (map (\<lambda>r. (ID r, r)) (rev rs)) k =
        (if k = i then Some (c\<lparr>Hidden := False, Deleted := s\<rparr>)
         else (case map_of (docs e) k of
                 Some d \<Rightarrow> if Type c = RESOURCE_TYPE_CONTAINER \<and> descendant c d
                           then Some (d\<lparr>Hidden := False, Deleted := s\<rparr>) else None
               | None \<Rightarrow> None))"
    by blast
  note st = staged_lookup [OF la]
  have fe: "f \<lparr>bleve_batch = [], bleve_size = defaultBatchSize\<rparr> e =
      (None, \<lparr>bleve_batch = fold (\<lambda>r. AList.update (ID r) (Some r)) rs [],
              bleve_size = defaultBatchSize\<rparr>, e2)"
    using st [THEN conjunct1] by (simp add: f s)
  show ?thesis
  proof (rule bleve_Backend_apply_okE [of f, OF fe h2])
    fix e'
    assume "docs e' = fold apply_op (fold (\<lambda>r. AList.update (ID r) (Some r)) rs []) (docs e2)"
    then show "\<forall>k. map_of (docs e') k =
        (if k = i then Some (c\<lparr>Hidden := False, Deleted := s\<rparr>)
         else (case map_of (docs e) k of
                 Some d \<Rightarrow> if Type c = RESOURCE_TYPE_CONTAINER \<and> descendant c d
                           then Some (d\<lparr>Hidden := False, Deleted := s\<rparr>) else Some d
               | None \<Rightarrow> None))"
      by (simp add: st [THEN conjunct2] lk d2 split: option.splits)
  qed
qed

text \<open>
  Claim C3. Let the index be well formed, the engine healthy, and \<open>c\<close> the resource stored
  under id \<open>i\<close>. Then \<^verbatim>\<open>Backend.Delete\<close> succeeds and sets \<open>Deleted\<close> on the document of \<open>c\<close> and,
  when \<open>c\<close> is a container, on the document of every descendant of \<open>c\<close>, and leaves every
  other document as it was; \<^verbatim>\<open>Backend.Restore\<close> does the same with \<open>Deleted\<close> cleared.
\<close>

theorem bleve_Delete_Restore_cascade:
  assumes wf: "wf_docs (docs e)" and h: "faults e = []" and len: "int (length (docs e)) \<le> MaxInt"
    and c: "map_of (docs e) i = Some c"
  shows "(\<exists>e'. bleve_Backend_Delete i e = (None, e') \<and>
      map_of (docs e') i = Some (c\<lparr>Hidden := False, Deleted := True\<rparr>) \<and>
      (\<forall>k d. Type c = RESOURCE_TYPE_CONTAINER \<and> map_of (docs e) k = Some d \<and> descendant c d \<longrightarrow>
         map_of (docs e') k = Some (d\<lparr>Hidden := False, Deleted := True\<rparr>)) \<and>
      (\<forall>k d. map_of (docs e) k = Some d \<and> k \<noteq> i \<and>
           \<not> (Type c = RESOURCE_TYPE_CONTAINER \<and> descendant c d) \<longrightarrow>
         map_of (docs e') k = Some d)) \<and>
    (\<exists>e'. bleve_Backend_Restore i e = (None, e') \<and>
      map_of (docs e') i = Some (c\<lparr>Hidden := False, Deleted := False\<rparr>) \<and>
      (\<forall>k d. Type c = RESOURCE_TYPE_CONTAINER \<and> map_of (docs e) k = Some d \<and> descendant c d \<longrightarrow>
         map_of (docs e') k = Some (d\<lparr>Hidden := False, Deleted := False\<rparr>)) \<and>
      (\<forall>k d. map_of (docs e) k = Some d \<and> k \<noteq> i \<and>
           \<not> (Type c = RESOURCE_TYPE_CONTAINER \<and> descendant c d) \<longrightarrow>
         map_of (docs e') k = Some d))"
proof -
  have nd: "\<not> descendant c c" by (rule not_descendant_self)
  have ki: "\<And>k d. map_of (docs e) k = Some d \<Longrightarrow> descendant c d \<Longrightarrow> k \<noteq> i"
    using c nd by auto
  from deletion_state_pushed [OF wf h len c, of "bleve_Delete_func i" True]
  obtain e' where 1: "bleve_Backend_apply (bleve_withSizeLimit (bleve_Delete_func i)) e = (None, e')"
    and lk: "\<And>k. map_of (docs e') k =
        (if k = i then Some (c\<lparr>Hidden := False, Deleted := True\<rparr>)
         else (case map_of (docs e) k of
                 Some d \<Rightarrow> if Type c = RESOURCE_TYPE_CONTAINER \<and> descendant c d
                           then Some (d\<lparr>Hidden := False, Deleted := True\<rparr>) else Some d
               | None \<Rightarrow> None))"
    by (auto simp: bleve_Delete_func_def)
  from deletion_state_pushed [OF wf h len c, of "bleve_Restore_func i" False]
  obtain e'' where 2: "bleve_Backend_apply (bleve_withSizeLimit (bleve_Restore_func i)) e = (None, e'')"
    and lk2: "\<And>k. map_of (docs e'') k =
        (if k = i then Some (c\<lparr>Hidden := False, Deleted := False\<rparr>)
         else (case map_of (docs e) k of
                 Some d \<Rightarrow> if Type c = RESOURCE_TYPE_CONTAINER \<and> descendant c d
                           then Some (d\<lparr>Hidden := False, Deleted := False\<rparr>) else Some d
               | None \<Rightarrow> None))"
    by (auto simp: bleve_Restore_func_def)
  have A: "\<exists>e'. bleve_Backend_Delete i e = (None, e') \<and>
      map_of (docs e') i = Some (c\<lparr>Hidden := False, Deleted := True\<rparr>) \<and>
      (\<forall>k d. Type c = RESOURCE_TYPE_CONTAINER \<and> map_of (docs e) k = Some d \<and> descendant c d \<longrightarrow>
         map_of (docs e') k = Some (d\<lparr>Hidden := False, Deleted := True\<rparr>)) \<and>
      (\<forall>k d. map_of (docs e) k = Some d \<and> k \<noteq> i \<and>
           \<not> (Type c = RESOURCE_TYPE_CONTAINER \<and> descendant c d) \<longrightarrow>
         map_of (docs e') k = Some d)"
    using 1 ki by (intro exI [of _ e']) (auto simp: bleve_Backend_Delete_def bleve_Delete_def lk)
  have B: "\<exists>e'. bleve_Backend_Restore i e = (None, e') \<and>
      map_of (docs e') i = Some (c\<lparr>Hidden := False, Deleted := False\<rparr>) \<and>
      (\<forall>k d. Type c = RESOURCE_TYPE_CONTAINER \<and> map_of (docs e) k = Some d \<and> descendant c d \<longrightarrow>
         map_of (docs e') k = Some (d\<lparr>Hidden := False, Deleted := False\<rparr>)) \<and>
      (\<forall>k d. map_of (docs e) k = Some d \<and> k \<noteq> i \<and>
           \<not> (Type c = RESOURCE_TYPE_CONTAINER \<and> descendant c d) \<longrightarrow>
         map_of (docs e') k = Some d)"
    using 2 ki by (intro exI [of _ e'']) (auto simp: bleve_Backend_Restore_def bleve_Restore_def lk2)
  from A B show ?thesis by blast
qed

theorem bleve_Delete_Restore_cascade_witness:
  "wf_docs (docs (healthy_engine example_docs)) \<and> faults (healthy_engine example_docs) = [] \<and>
   int (length (docs (healthy_engine example_docs))) \<le> MaxInt \<and>
   map_of (docs (healthy_engine example_docs)) ''d1'' = Some (resource ''d1'' ''s1'' ''./a'' 2 False) \<and>
   (\<exists>e'. bleve_Backend_Delete ''d1'' (healthy_engine example_docs) = (None, e') \<and>
      map_of (docs e') ''d1'' = Some (resource ''d1'' ''s1'' ''./a'' 2 True) \<and>
      map_of (docs e') ''f1'' = Some (resource ''f1'' ''s1'' ''./a/x.txt'' 1 True) \<and>
      map_of (docs e') ''f2'' = Some (resource ''f2'' ''s1'' ''./ab/y.txt'' 1 False) \<and>
      map_of (docs e') ''f3'' = Some (resource ''f3'' ''s2'' ''./a/z.txt'' 1 True)) \<and>
   (\<exists>e'. bleve_Backend_Restore ''d1'' (healthy_engine example_docs) = (None, e') \<and>
      map_of (docs e') ''d1'' = Some (resource ''d1'' ''s1'' ''./a'' 2 False) \<and>
      map_of (docs e') ''f1'' = Some (resource ''f1'' ''s1'' ''./a/x.txt'' 1 False) \<and>
      map_of (docs e') ''f2'' = Some (resource ''f2'' ''s1'' ''./ab/y.txt'' 1 False) \<and>
      map_of (docs e') ''f3'' = Some (resource ''f3'' ''s2'' ''./a/z.txt'' 1 True))"
proof -
  note H = example_docs_hyps
  note T = bleve_Delete_Restore_cascade [of "healthy_engine example_docs" "''d1''"
      "resource ''d1'' ''s1'' ''./a'' 2 False"]
  have t: "Type (resource ''d1'' ''s1'' ''./a'' 2 False) = RESOURCE_TYPE_CONTAINER"
    using H by blast
  from T H obtain e' where
    r: "bleve_Backend_Delete ''d1'' (healthy_engine example_docs) = (None, e')"
    and a: "map_of (docs e') ''d1'' =
       Some ((resource ''d1'' ''s1'' ''./a'' 2 False)\<lparr>Hidden := False, Deleted := True\<rparr>)"
    and b: "\<And>k d. Type (resource ''d1'' ''s1'' ''./a'' 2 False) = RESOURCE_TYPE_CONTAINER \<Longrightarrow>
        map_of (docs (healthy_engine example_docs)) k = Some d \<Longrightarrow>
        descendant (resource ''d1'' ''s1'' ''./a'' 2 False) d \<Longrightarrow>
        map_of (docs e') k = Some (d\<lparr>Hidden := False, Deleted := True\<rparr>)"
    and c: "\<And>k d. map_of (docs (healthy_engine example_docs)) k = Some d \<Longrightarrow> k \<noteq> ''d1'' \<Longrightarrow>
        \<not> (Type (resource ''d1'' ''s1'' ''./a'' 2 False) = RESOURCE_TYPE_CONTAINER \<and>
           descendant (resource ''d1'' ''s1'' ''./a'' 2 False) d) \<Longrightarrow> map_of (docs e') k = Some d"
    by blast
  from T H obtain e'' where
    r': "bleve_Backend_Restore ''d1'' (healthy_engine example_docs) = (None, e'')"
    and a': "map_of (docs e'') ''d1'' =
       Some ((resource ''d1'' ''s1'' ''./a'' 2 False)\<lparr>Hidden := False, Deleted := False\<rparr>)"
    and b': "\<And>k d. Type (resource ''d1'' ''s1'' ''./a'' 2 False) = RESOURCE_TYPE_CONTAINER \<Longrightarrow>
        map_of (docs (healthy_engine example_docs)) k = Some d \<Longrightarrow>
        descendant (resource ''d1'' ''s1'' ''./a'' 2 False) d \<Longrightarrow>
        map_of (docs e'') k = Some (d\<lparr>Hidden := False, Deleted := False\<rparr>)"
    and c': "\<And>k d. map_of (docs (healthy_engine example_docs)) k = Some d \<Longrightarrow> k \<noteq> ''d1'' \<Longrightarrow>
        \<not> (Type (resource ''d1'' ''s1'' ''./a'' 2 False) = RESOURCE_TYPE_CONTAINER \<and>
           descendant (resource ''d1'' ''s1'' ''./a'' 2 False) d) \<Longrightarrow> map_of (docs e'') k = Some d"
    by blast
  have 1: "map_of (docs e') ''d1'' = Some (resource ''d1'' ''s1'' ''./a'' 2 True)"
    using a by (simp add: resource_def)
  have 2: "map_of (docs e') ''f1'' = Some (resource ''f1'' ''s1'' ''./a/x.txt'' 1 True)"
    using b [OF t example_docs_lookup(1) example_docs_descendant(1)] by (simp add: resource_def)
  have 3: "map_of (docs e') ''f2'' = Some (resource ''f2'' ''s1'' ''./ab/y.txt'' 1 False)"
    using c [OF example_docs_lookup(2)] example_docs_descendant(2) by simp
  have 4: "map_of (docs e') ''f3'' = Some (resource ''f3'' ''s2'' ''./a/z.txt'' 1 True)"
    using c [OF example_docs_lookup(3)] example_docs_descendant(3) by simp
  have x1: "map_of (docs e'') ''d1'' = Some (resource ''d1'' ''s1'' ''./a'' 2 False)"
    using a' by (simp add: resource_def)
  have x2: "map_of (docs e'') ''f1'' = Some (resource ''f1'' ''s1'' ''./a/x.txt'' 1 False)"
    using b' [OF t example_docs_lookup(1) example_docs_descendant(1)] by (simp add: resource_def)
  have x3: "map_of (docs e'') ''f2'' = Some (resource ''f2'' ''s1'' ''./ab/y.txt'' 1 False)"
    using c' [OF example_docs_lookup(2)] example_docs_descendant(2) by simp
  have x4: "map_of (docs e'') ''f3'' = Some (resource ''f3'' ''s2'' ''./a/z.txt'' 1 True)"
    using c' [OF example_docs_lookup(3)] example_docs_descendant(3) by simp
  from H r 1 2 3 4 r' x1 x2 x3 x4 show ?thesis by blast
qed

subsection \<open>Purge removes the resource and its descendants\<close>

text \<open>
  On the embedded backend, \<^verbatim>\<open>Backend.Purge\<close> on a well-formed index and a healthy engine
  removes the document of the resource and, for a container, of its descendants, each
  only if it is deleted when only deleted resources are wanted, and nothing else; when
  no document qualifies it returns \<^verbatim>\<open>nil\<close> and every document is as it was.
\<close>

lemma fold_add: "fold (add od) xs acc = acc @ filter (\<lambda>r. \<not> (od \<and> \<not> Deleted r)) xs"
  by (induction xs arbitrary: acc) (simp_all add: add_def)

lemma fold_batch_Delete:
  "list_all (\<lambda>r. ID r \<noteq> []) rs \<Longrightarrow>
   fold (\<lambda>r. batch_Delete (ID r)) rs ops = fold (\<lambda>r. AList.update (ID r) None) rs ops"
  by (induction rs arbitrary: ops) (simp_all add: batch_Delete_def)

lemma map_of_fold_update_None:
  "map_of (fold (\<lambda>r. AList.update (ID r) None) rs ops) k =
     (if k \<in> ID ` set rs then Some None else map_of ops k)"
  by (induction rs arbitrary: ops) (auto simp: update_conv')

lemma distinct_fold_update_None:
  "distinct (map fst ops) \<Longrightarrow> distinct (map fst (fold (\<lambda>r. AList.update (ID r) None) rs ops))"
  by (induction rs arbitrary: ops) (simp_all add: distinct_update)

lemma purged_lookup:
  assumes "list_all (\<lambda>r. ID r \<noteq> []) rs"
  shows "map_of (fold apply_op (fold (\<lambda>r. batch_Delete (ID r)) rs []) ds) k =
     (if k \<in> ID ` set rs then None else map_of ds k)"
proof -
  have d: "distinct (map fst (fold (\<lambda>r. AList.update (ID r) None) rs []))"
    by (rule distinct_fold_update_None) simp
  show ?thesis
    by (simp add: fold_batch_Delete [OF assms] map_of_fold_apply_op [OF d] map_of_fold_update_None)
qed

lemma bleve_Purge_filter:
  assumes wf: "wf_docs (docs e)" and h: "faults e = []" and len: "int (length (docs e)) \<le> MaxInt"
    and c: "map_of (docs e) i = Some c"
  shows "\<exists>e'. bleve_Backend_Purge i onlyDeleted e = (None, e') \<and>
     (\<forall>k. map_of (docs e') k =
        (case map_of (docs e) k of
           None \<Rightarrow> None
         | Some d \<Rightarrow>
             if (k = i \<or> Type c = RESOURCE_TYPE_CONTAINER \<and> descendant c d) \<and>
                (if onlyDeleted then Deleted d else True)
             then None else Some d))"
proof -
  define qual where "qual = (\<lambda>r::Resource. \<not> (onlyDeleted \<and> \<not> Deleted r))"
  define root where "root = c\<lparr>Hidden := False\<rparr>"
  define hits where "hits = filter (\<lambda>d. descendant c (snd d)) (docs e)"
  define ds' where "ds' = (if Type c = RESOURCE_TYPE_CONTAINER then map matchToResource hits else [])"
  define rs where "rs = filter qual (root # ds')"
  define e1 where "e1 = e\<lparr>requests := requests e @ [ReqSearch 10]\<rparr>"
  define e2 where "e2 = (if Type c = RESOURCE_TYPE_CONTAINER
      then e1\<lparr>requests := requests e1 @ [ReqSearch MaxInt]\<rparr> else e1)"
  have dist: "distinct (map fst (docs e))" using wf by (simp add: wf_docs_def)
  have idc: "ID c = i" "i \<noteq> []" using wf c by (auto dest: wf_docs_map_of)
  have s1: "bleve_searchResourceByID i e = (Inr root, e1)"
    using searchByID_found [OF h dist c] by (simp add: e1_def root_def)
  have s2: "searchResourcesByPath (RootID c) (Path c) e1 =
      (Inr (map matchToResource hits), e1\<lparr>requests := requests e1 @ [ReqSearch MaxInt]\<rparr>)"
    using searchByPath_healthy [of e1 "RootID c" "Path c"] h len
    by (simp add: e1_def hits_def descendant_def)
  have f: "bleve_Purge_func i onlyDeleted \<lparr>bleve_batch = [], bleve_size = defaultBatchSize\<rparr> e =
      (None, \<lparr>bleve_batch = fold (\<lambda>r. batch_Delete (ID r)) rs [],
              bleve_size = defaultBatchSize\<rparr>, e2)"
    by (simp add: bleve_Purge_func_def s1 s2 root_def rs_def ds'_def e2_def fold_add add_def qual_def)
  have h2: "faults e2 = []" and d2: "docs e2 = docs e" by (simp_all add: e2_def e1_def h)
  have la: "list_all (\<lambda>r. ID r \<noteq> []) rs"
    using wf idc
    by (auto simp: rs_def ds'_def hits_def root_def list_all_iff matchToResource_def dest: wf_docs_in)
  have mem: "\<And>k. k \<in> ID ` set rs \<longleftrightarrow>
      (case map_of (docs e) k of
         None \<Rightarrow> False
       | Some d \<Rightarrow> (k = i \<or> Type c = RESOURCE_TYPE_CONTAINER \<and> descendant c d) \<and> qual d)"
  proof -
    fix k
    show "k \<in> ID ` set rs \<longleftrightarrow>
      (case map_of (docs e) k of
         None \<Rightarrow> False
       | Some d \<Rightarrow> (k = i \<or> Type c = RESOURCE_TYPE_CONTAINER \<and> descendant c d) \<and> qual d)"
    proof
      assume "k \<in> ID ` set rs"
      then obtain r where r: "r \<in> set rs" "ID r = k" by auto
      then have "r \<in> set (root # ds') \<and> qual r" unfolding rs_def set_filter by blast
      then have q: "qual r" and "r = root \<or> r \<in> set ds'" by auto
      from this(2) show "case map_of (docs e) k of
         None \<Rightarrow> False
       | Some d \<Rightarrow> (k = i \<or> Type c = RESOURCE_TYPE_CONTAINER \<and> descendant c d) \<and> qual d"
      proof
        assume "r = root"
        with r q c idc show ?thesis by (simp add: root_def qual_def)
      next
        assume "r \<in> set ds'"
        then obtain k' d where t: "Type c = RESOURCE_TYPE_CONTAINER" and kd: "(k', d) \<in> set (docs e)"
          and de: "descendant c d" and rd: "r = matchToResource (k', d)"
          by (auto simp: ds'_def hits_def split: if_splits)
        from wf kd rd r have "k' = k" by (auto simp: matchToResource_def dest: wf_docs_in)
        with dist kd have "map_of (docs e) k = Some d" by (simp add: map_of_is_SomeI)
        with t de q rd show ?thesis by (simp add: qual_def matchToResource_def)
      qed
    next
      assume a: "case map_of (docs e) k of
         None \<Rightarrow> False
       | Some d \<Rightarrow> (k = i \<or> Type c = RESOURCE_TYPE_CONTAINER \<and> descendant c d) \<and> qual d"
      then obtain d where m: "map_of (docs e) k = Some d"
        and b: "k = i \<or> Type c = RESOURCE_TYPE_CONTAINER \<and> descendant c d" and q: "qual d"
        by (auto split: option.splits)
      from b show "k \<in> ID ` set rs"
      proof
        assume "k = i"
        with m c have "d = c" by simp
        with q have "root \<in> set rs" unfolding rs_def set_filter by (simp add: root_def qual_def)
        moreover have "ID root = k" using idc \<open>k = i\<close> by (simp add: root_def)
        ultimately show ?thesis by force
      next
        assume t: "Type c = RESOURCE_TYPE_CONTAINER \<and> descendant c d"
        from m have kd: "(k, d) \<in> set (docs e)" by (rule map_of_SomeD)
        with t have "matchToResource (k, d) \<in> set ds'" by (force simp: ds'_def hits_def)
        with q have "matchToResource (k, d) \<in> set rs"
          unfolding rs_def set_filter by (simp add: qual_def matchToResource_def)
        moreover have "ID (matchToResource (k, d)) = k"
          using wf kd by (auto simp: matchToResource_def dest: wf_docs_in)
        ultimately show ?thesis by force
      qed
    qed
  qed
  show ?thesis
    unfolding bleve_Backend_Purge_def bleve_Purge_def
  proof (rule bleve_Backend_apply_okE [of "bleve_Purge_func i onlyDeleted", OF f h2])
    fix e'
    assume "docs e' = fold apply_op (fold (\<lambda>r. batch_Delete (ID r)) rs []) (docs e2)"
    then show "\<forall>k. map_of (docs e') k =
        (case map_of (docs e) k of
           None \<Rightarrow> None
         | Some d \<Rightarrow>
             if (k = i \<or> Type c = RESOURCE_TYPE_CONTAINER \<and> descendant c d) \<and>
                (if onlyDeleted then Deleted d else True)
             then None else Some d)"
      by (simp add: purged_lookup [OF la] mem d2 qual_def split: option.splits)
  qed
qed

lemma client_Search_healthy:
  "faults e = [] \<Longrightarrow> client_Search pm q n e =
     (Inr (take (nat (case n of None \<Rightarrow> 10 | Some k \<Rightarrow> k)) (filter (opensearch_matches pm q) (docs e)),
           int (length (filter (opensearch_matches pm q) (docs e)))),
      e\<lparr>requests := requests e @ [ReqSearch (case n of None \<Rightarrow> 10 | Some k \<Rightarrow> k)]\<rparr>)"
  by (simp add: client_Search_def receive_healthy)

lemma opensearch_searchByID_found:
  "faults e = [] \<Longrightarrow> distinct (map fst (docs e)) \<Longrightarrow> map_of (docs e) i = Some c \<Longrightarrow>
   opensearch_searchResourceByID pm i e = (Inr c, e\<lparr>requests := requests e @ [ReqSearch 10]\<rparr>)"
proof -
  assume h: "faults e = []" "distinct (map fst (docs e))" "map_of (docs e) i = Some c"
  have m: "opensearch_matches pm (IDsQuery [i]) = (\<lambda>d. fst d = i)" by (auto simp: fun_eq_iff)
  show ?thesis using h
    by (simp add: opensearch_searchResourceByID_def client_Search_healthy m filter_key)
qed

lemma opensearch_Purge_removes:
  assumes h: "faults e = []" and d: "distinct (map fst (docs e))" and c: "map_of (docs e) i = Some c"
  shows "\<exists>e'. opensearch_Backend_Purge pm ix i onlyDeleted e = (None, e') \<and>
     docs e' = filter (\<lambda>d. \<not> (pm (Path c) (Path (snd d)) \<and> (if onlyDeleted then Deleted (snd d) else True))) (docs e)"
  using h
  by (cases onlyDeleted)
    (simp_all add: opensearch_Backend_Purge_def opensearch_Backend_apply_def opensearch_NewBatch_def
      defaultBatchSize_def opensearch_Purge_def opensearch_withSizeLimit_def opensearch_Purge_func_def
      opensearch_searchByID_found [OF h d c] Let_def NewBoolQuery_def opensearch_Push_def
      pushBulkOperations_def opensearch_Purge_op_def client_DeleteByQuery_def receive_healthy
      bool_field_def)


text \<open>
  Claim C4. The embedded backend purges as the claim says (lemma \<open>bleve_Purge_filter\<close>
  above). The clustered backend selects the documents to delete by the path of the
  resource, and by the deletion flag when only deleted resources are wanted, but not by
  its space (lemma \<open>opensearch_Purge_removes\<close>, whatever the matching of paths): purging the
  folder \<open>./a\<close> of space \<open>s1\<close> also removes the deleted file \<open>./a/z.txt\<close> of space \<open>s2\<close>, which
  is no descendant of the folder, so that of the four documents only \<open>./ab/y.txt\<close> is left,
  and with it the folder when only deleted resources are purged.
\<close>

theorem opensearch_Purge_crosses_spaces:
  "opensearch_Backend_Purge path_hierarchy ''idx'' ''d1'' False (healthy_engine example_docs) =
     (None, \<lparr>docs = [(''f2'', resource ''f2'' ''s1'' ''./ab/y.txt'' 1 False)], faults = [],
             requests = [ReqSearch 10, ReqDeleteByQuery]\<rparr>) \<and>
   opensearch_Backend_Purge path_hierarchy ''idx'' ''d1'' True (healthy_engine example_docs) =
     (None, \<lparr>docs = [(''d1'', resource ''d1'' ''s1'' ''./a'' 2 False),
                      (''f2'', resource ''f2'' ''s1'' ''./ab/y.txt'' 1 False)], faults = [],
             requests = [ReqSearch 10, ReqDeleteByQuery]\<rparr>)"
  by (simp add: opensearch_Backend_Purge_def opensearch_Backend_apply_def opensearch_NewBatch_def
      defaultBatchSize_def opensearch_Purge_def opensearch_withSizeLimit_def opensearch_Purge_func_def
      opensearch_searchResourceByID_def client_Search_def Let_def NewBoolQuery_def opensearch_Push_def
      pushBulkOperations_def opensearch_Purge_op_def client_DeleteByQuery_def receive_def
      bool_field_def healthy_engine_def example_docs_def resource_def path_hierarchy_def)

end
